theory Spec2Isabelle
  imports Complex_Main "HOL-Library.List_Lexorder" "HOL-Library.Char_ord" "HOL-Library.Sublist"
begin

section \<open>Python values, errors and the library interface\<close>

text \<open>
  The scraper works on untyped data: JSON read from pages and from the parameter file.
  A Python value is an element of \<open>pyval\<close>. Floats are read as real numbers (the
  code only compares and prints them), so NaN, infinities and overflow are outside the
  model. A dict is an association list in insertion order, looked up by its first
  matching key.
\<close>

datatype pyval =
    PNone
  | PBool bool
  | PInt int
  | PFloat real
  | PStr string
  | PList "pyval list"
  | PDict "(string \<times> pyval) list"

type_synonym pydict = "(string \<times> pyval) list"

datatype error = TypeError | AttributeError | ValueError string

text \<open>\<open>bool(v)\<close>, the truth value Python gives to \<open>v\<close> in \<open>if v\<close>, \<open>not v\<close>, \<open>a or b\<close>.\<close>

fun truthy :: "pyval \<Rightarrow> bool" where
  "truthy PNone = False"
| "truthy (PBool b) = b"
| "truthy (PInt i) = (i \<noteq> 0)"
| "truthy (PFloat r) = (r \<noteq> 0)"
| "truthy (PStr s) = (s \<noteq> [])"
| "truthy (PList xs) = (xs \<noteq> [])"
| "truthy (PDict kvs) = (kvs \<noteq> [])"

text \<open>\<open>a or b\<close> on values.\<close>

definition py_or :: "pyval \<Rightarrow> pyval \<Rightarrow> pyval" where
  "py_or a b = (if truthy a then a else b)"

text \<open>\<open>d.get(k)\<close>: the value stored under \<open>k\<close>, \<open>None\<close> when the key is missing.\<close>

definition dict_get :: "pydict \<Rightarrow> string \<Rightarrow> pyval" where
  "dict_get d k = (case map_of d k of None \<Rightarrow> PNone | Some v \<Rightarrow> v)"

text \<open>
  What the review extractor reads from one review card of a page: the result of each
  selector query the code makes on the card. A text field is the \<open>get_text(strip=True)\<close>
  of the first element the selector matches, \<open>None\<close> when there is no such element; an
  attribute field is the value of the attribute on that element.
\<close>

record time_el =
  datetime_attr :: "string option"
  time_text :: string

record card =
  sel_h2 :: "string option"
  sel_review_title :: "string option"
  sel_text_typography :: "string option"
  sel_content_text :: "string option"
  attr_data_rating :: "string option"
  attr_service_review_rating :: "string option"
  attr_aria_rated :: "string option"
  sel_time :: "time_el option"
  sel_consumer_name :: "string option"
  sel_consumer_name_class :: "string option"
  sel_img_src :: "string option option"
  sel_consumer_country :: "string option"
  sel_consumer_details_class :: "string option"
  attr_consumer_reviews_count :: "string option"
  has_badge_verified :: bool
  has_review_verified :: bool
  attr_service_review_id :: "string option"
  first_anchor_href :: "string option"

text \<open>
  The functions of Python's standard library and of the HTML and HTTP packages that the
  code calls are not part of the repository. They are the fields of \<open>pylib\<close>, passed to
  every function that uses one: \<open>float(s)\<close> and \<open>int(s)\<close> on a string (\<open>None\<close> is
  \<open>ValueError\<close>), \<open>str(v)\<close>, the format \<open>:.1f\<close>, \<open>urljoin\<close>, \<open>urlparse(u).netloc\<close>,
  \<open>urlparse(u).path\<close>, \<open>json.loads\<close> (\<open>None\<close> is \<open>JSONDecodeError\<close>),
  \<open>datetime.fromisoformat(s).isoformat()\<close> (\<open>None\<close> when parsing raises), the
  \<open>n\<close>-th reading of the clock in a run, as \<open>datetime.now(timezone.utc).isoformat()\<close>
  prints it, the contents (\<open>script.string or script.text\<close>) of the structured-data
  script elements of a page, the review cards of a page, and the page fetcher without
  and with the \<open>languages\<close> query parameter (\<open>None\<close> is a failed request: a
  transport error or a status that is not a success). \<open>_create_session\<close> only
  configures that fetcher.
\<close>

record pylib =
  float_of_str :: "string \<Rightarrow> real option"
  int_of_str :: "string \<Rightarrow> int option"
  str_of :: "pyval \<Rightarrow> string"
  fmt_1f :: "real \<Rightarrow> string"
  urljoin :: "string \<Rightarrow> string \<Rightarrow> string"
  netloc :: "string \<Rightarrow> string"
  url_path :: "string \<Rightarrow> string"
  json_loads :: "string \<Rightarrow> pyval option"
  iso_roundtrip :: "string \<Rightarrow> string option"
  utc_now :: "nat \<Rightarrow> string"
  ld_json_scripts :: "string \<Rightarrow> string list"
  review_cards :: "string \<Rightarrow> card list"
  http_get :: "string \<Rightarrow> string option"
  http_get_lang :: "string \<Rightarrow> pyval \<Rightarrow> string option"

text \<open>The numeric value of a number; \<open>bool\<close> is a subclass of \<open>int\<close>.\<close>

fun num_of :: "pyval \<Rightarrow> real option" where
  "num_of (PInt i) = Some (real_of_int i)"
| "num_of (PFloat r) = Some r"
| "num_of (PBool b) = Some (if b then 1 else 0)"
| "num_of _ = None"

text \<open>\<open>v >= c\<close> for a number \<open>c\<close>: a \<open>TypeError\<close> unless \<open>v\<close> is a number too.\<close>

definition py_ge :: "pyval \<Rightarrow> real \<Rightarrow> error + bool" where
  "py_ge v c = (case num_of v of None \<Rightarrow> Inl TypeError | Some r \<Rightarrow> Inr (r \<ge> c))"

text \<open>\<open>s.lower()\<close> on the ASCII letters: an upper-case letter gets the bit of value 32.\<close>

definition lower_char :: "char \<Rightarrow> char" where
  "lower_char c =
     (if CHR ''A'' \<le> c \<and> c \<le> CHR ''Z''
      then (case c of Char b0 b1 b2 b3 b4 b5 b6 b7 \<Rightarrow> Char b0 b1 b2 b3 b4 True b6 b7)
      else c)"

definition lower :: "string \<Rightarrow> string" where
  "lower s = map lower_char s"

text \<open>\<open>v.lower()\<close> on a value: only a string has the method.\<close>

fun py_lower :: "pyval \<Rightarrow> error + string" where
  "py_lower (PStr s) = Inr (lower s)"
| "py_lower _ = Inl AttributeError"

section \<open>The data model\<close>

text \<open>
  The dataclasses \<open>Consumer\<close>, \<open>Review\<close> and \<open>Company\<close>. Python does not enforce the
  declared field types: a field that receives a value read from JSON, or that a caller
  may set to a string, is a \<open>pyval\<close>; a field whose every producer gives a string or
  \<open>None\<close> is a \<open>string option\<close>. The fields \<open>id\<close>, \<open>text\<close>, \<open>title\<close>, \<open>rating\<close>,
  \<open>date\<close> of a review carry the prefix \<open>r_\<close>, and \<open>Company.image\<close> is \<open>image_c\<close>.
\<close>

record consumer =
  c_id :: "string option"
  displayName :: "string option"
  imageUrl :: "string option"
  isVerified :: bool
  numberOfReviews :: "int option"
  countryCode :: "string option"

record review =
  r_id :: "string option"
  r_text :: "string option"
  r_title :: "string option"
  r_rating :: "int option"
  r_date :: pydict
  r_consumer :: consumer

record company =
  ID :: pyval
  domain :: "string option"
  ratingValue :: pyval
  reviewCount :: pyval
  name :: pyval
  description :: pyval
  image_c :: pyval
  country :: pyval
  address :: pyval
  city :: pyval
  zipCode :: pyval
  website :: "string option"
  email :: "string option"
  phone :: pyval
  categories :: "string list"
  categoriesID :: "string list"
  lastReviews :: "review list"
  reviews :: "review list"
  rating :: pydict
  data :: pydict
  similarBusinessUnits :: "pydict list"
  aiSummary :: pydict
  sourceUrl :: "string option"

section \<open>The filter engine (utils\_filters.py)\<close>

text \<open>\<open>_safe_float\<close>: \<open>float(value)\<close>, with \<open>None\<close> for \<open>None\<close> and for a caught
  \<open>TypeError\<close> (a list or a dict) or \<open>ValueError\<close> (a string that is no number).\<close>

fun safe_float :: "pylib \<Rightarrow> pyval \<Rightarrow> real option" where
  "safe_float L PNone = None"
| "safe_float L (PFloat r) = Some r"
| "safe_float L (PInt i) = Some (real_of_int i)"
| "safe_float L (PBool b) = Some (if b then 1 else 0)"
| "safe_float L (PStr s) = float_of_str L s"
| "safe_float L (PList xs) = None"
| "safe_float L (PDict kvs) = None"

text \<open>\<open>int(value)\<close> under the same \<open>try\<close>: a float is truncated towards zero.\<close>

definition trunc :: "real \<Rightarrow> int" where
  "trunc r = (if r < 0 then \<lceil>r\<rceil> else \<lfloor>r\<rfloor>)"

fun safe_int :: "pylib \<Rightarrow> pyval \<Rightarrow> int option" where
  "safe_int L PNone = None"
| "safe_int L (PInt i) = Some i"
| "safe_int L (PBool b) = Some (if b then 1 else 0)"
| "safe_int L (PFloat r) = Some (trunc r)"
| "safe_int L (PStr s) = int_of_str L s"
| "safe_int L (PList xs) = None"
| "safe_int L (PDict kvs) = None"

definition matches_country :: "company \<Rightarrow> pyval \<Rightarrow> error + bool" where
  "matches_country c cty =
     (if \<not> truthy cty then Inr True
      else if \<not> truthy (country c) then Inr False
      else (case py_lower (country c) of
              Inl e \<Rightarrow> Inl e
            | Inr a \<Rightarrow> (case py_lower cty of Inl e \<Rightarrow> Inl e | Inr b \<Rightarrow> Inr (a = b))))"

definition has_min_reviews :: "company \<Rightarrow> int option \<Rightarrow> error + bool" where
  "has_min_reviews c minimum =
     (case minimum of
        None \<Rightarrow> Inr True
      | Some m \<Rightarrow> (if reviewCount c = PNone then Inr False
                   else py_ge (reviewCount c) (real_of_int m)))"

definition meets_min_trust :: "pylib \<Rightarrow> company \<Rightarrow> real option \<Rightarrow> bool" where
  "meets_min_trust L c min_trust_score =
     (case min_trust_score of
        None \<Rightarrow> True
      | Some m \<Rightarrow> (case safe_float L (ratingValue c) of
                     None \<Rightarrow> False
                   | Some r \<Rightarrow> r \<ge> m))"

text \<open>\<open>_is_verified\<close> compares the fields as they are; \<open>and\<close> evaluates its right
  operand only when the left one is true.\<close>

definition is_verified :: "company \<Rightarrow> error + bool" where
  "is_verified c =
     (if ratingValue c = PNone \<or> reviewCount c = PNone then Inr False
      else (case py_ge (ratingValue c) 4 of
              Inl e \<Rightarrow> Inl e
            | Inr False \<Rightarrow> Inr False
            | Inr True \<Rightarrow> py_ge (reviewCount c) 50))"

text \<open>The body of the loop of \<open>apply_company_filters\<close> for one company: \<open>Inr False\<close>
  is a \<open>continue\<close>, \<open>Inr True\<close> reaches \<open>filtered.append(company)\<close>.\<close>

definition passes_filters ::
  "pylib \<Rightarrow> real option \<Rightarrow> pyval \<Rightarrow> int option \<Rightarrow> bool \<Rightarrow> company \<Rightarrow> error + bool" where
  "passes_filters L min_trust cty min_reviews verified_only c =
     (if \<not> meets_min_trust L c min_trust then Inr False
      else (case matches_country c cty of
              Inl e \<Rightarrow> Inl e
            | Inr False \<Rightarrow> Inr False
            | Inr True \<Rightarrow>
                (case has_min_reviews c min_reviews of
                   Inl e \<Rightarrow> Inl e
                 | Inr False \<Rightarrow> Inr False
                 | Inr True \<Rightarrow>
                     (if verified_only then
                        (case is_verified c of
                           Inl e \<Rightarrow> Inl e
                         | Inr v \<Rightarrow> Inr v)
                      else Inr True))))"

fun filter_loop ::
  "pylib \<Rightarrow> real option \<Rightarrow> pyval \<Rightarrow> int option \<Rightarrow> bool \<Rightarrow> company list \<Rightarrow> company list
     \<Rightarrow> error + company list" where
  "filter_loop L mt cty mr vo [] filtered = Inr filtered"
| "filter_loop L mt cty mr vo (c # cs) filtered =
     (case passes_filters L mt cty mr vo c of
        Inl e \<Rightarrow> Inl e
      | Inr b \<Rightarrow> filter_loop L mt cty mr vo cs (if b then filtered @ [c] else filtered))"

definition apply_company_filters :: "pylib \<Rightarrow> company list \<Rightarrow> pydict \<Rightarrow> error + company list" where
  "apply_company_filters L companies params =
     (let min_trust = safe_float L (dict_get params ''minTrustScore'');
          verified_only = truthy (dict_get params ''verifiedOnly'');
          min_reviews = safe_int L (dict_get params ''minReviews'');
          cty = dict_get params ''country''
      in filter_loop L min_trust cty min_reviews verified_only companies [])"

text \<open>\<open>Company(ID=i)\<close>: every other field takes the default of the dataclass.\<close>

definition Company :: "pyval \<Rightarrow> company" where
  "Company i =
     \<lparr>ID = i, domain = None, ratingValue = PNone, reviewCount = PNone, name = PNone,
      description = PNone, image_c = PNone, country = PNone, address = PNone, city = PNone,
      zipCode = PNone, website = None, email = None, phone = PNone, categories = [],
      categoriesID = [], lastReviews = [], reviews = [], rating = [], data = [],
      similarBusinessUnits = [], aiSummary = [], sourceUrl = None\<rparr>"

subsection \<open>The filter contract in the words of the specification\<close>

text \<open>"Rating at least 4.0 and review count at least 50, both present."\<close>

definition verified_like :: "company \<Rightarrow> bool" where
  "verified_like c =
     (case (num_of (ratingValue c), num_of (reviewCount c)) of
        (Some r, Some n) \<Rightarrow> r \<ge> 4 \<and> n \<ge> 50
      | _ \<Rightarrow> False)"

text \<open>The three other predicates of the filter, under the thresholds read from the
  parameters.\<close>

definition others_pass :: "pylib \<Rightarrow> pydict \<Rightarrow> company \<Rightarrow> bool" where
  "others_pass L params c =
     (meets_min_trust L c (safe_float L (dict_get params ''minTrustScore''))
      \<and> matches_country c (dict_get params ''country'') = Inr True
      \<and> has_min_reviews c (safe_int L (dict_get params ''minReviews'')) = Inr True)"




text \<open>
  A library in which every parser rejects its input, every request fails, \<open>str\<close>
  returns a string as it is and the empty string otherwise, and every other formatter
  returns the empty string. The worked examples below start from it and set the fields
  they use.
\<close>

definition lib0 :: pylib where
  "lib0 =
     \<lparr>float_of_str = (\<lambda>s. None), int_of_str = (\<lambda>s. None),
      str_of = (\<lambda>v. case v of PStr s \<Rightarrow> s | _ \<Rightarrow> []),
      fmt_1f = (\<lambda>r. []), urljoin = (\<lambda>b u. u), netloc = (\<lambda>u. []),
      url_path = (\<lambda>u. []), json_loads = (\<lambda>s. None), iso_roundtrip = (\<lambda>s. None),
      utc_now = (\<lambda>n. []), ld_json_scripts = (\<lambda>h. []), review_cards = (\<lambda>h. []),
      http_get = (\<lambda>u. None), http_get_lang = (\<lambda>u l. None)\<rparr>"

section \<open>The review extractor (review\_parser.py)\<close>

text \<open>\<open>a or b\<close> on two optional query results: an element found is always truthy.\<close>

definition or_else :: "'a option \<Rightarrow> 'a option \<Rightarrow> 'a option" where
  "or_else a b = (case a of Some x \<Rightarrow> Some x | None \<Rightarrow> b)"

text \<open>The ASCII white space that \<open>str.split()\<close> and \<open>str.strip()\<close> remove.\<close>

definition is_space :: "char \<Rightarrow> bool" where
  "is_space c =
     (c \<in> set [CHR 0x09, CHR 0x0A, CHR 0x0B, CHR 0x0C, CHR 0x0D,
                CHR 0x1C, CHR 0x1D, CHR 0x1E, CHR 0x1F, CHR '' ''])"

text \<open>\<open>text.split()\<close>: the maximal runs of characters that are not white space.\<close>

fun split_acc :: "string \<Rightarrow> string \<Rightarrow> string list" where
  "split_acc [] cur = (if cur = [] then [] else [cur])"
| "split_acc (c # cs) cur =
     (if is_space c then (if cur = [] then split_acc cs [] else cur # split_acc cs [])
      else split_acc cs (cur @ [c]))"

definition split_ws :: "string \<Rightarrow> string list" where
  "split_ws s = split_acc s []"

text \<open>\<open>s.split(sep)\<close> for a separator of one character.\<close>

fun split_on :: "char \<Rightarrow> string \<Rightarrow> string \<Rightarrow> string list" where
  "split_on sep [] cur = [cur]"
| "split_on sep (c # cs) cur =
     (if c = sep then cur # split_on sep cs [] else split_on sep cs (cur @ [c]))"

text \<open>\<open>s.upper()\<close> on the ASCII letters: a lower-case letter loses the bit of value 32.\<close>

definition upper_char :: "char \<Rightarrow> char" where
  "upper_char c =
     (if CHR ''a'' \<le> c \<and> c \<le> CHR ''z''
      then (case c of Char b0 b1 b2 b3 b4 b5 b6 b7 \<Rightarrow> Char b0 b1 b2 b3 b4 False b6 b7)
      else c)"

definition upper :: "string \<Rightarrow> string" where
  "upper s = map upper_char s"

text \<open>\<open>raw.replace("Z", "+00:00")\<close> replaces every occurrence of the letter.\<close>

definition replace_Z :: "string \<Rightarrow> string" where
  "replace_Z raw = concat (map (\<lambda>c. if c = CHR ''Z'' then ''+00:00'' else [c]) raw)"

text \<open>\<open>_parse_date_iso\<close>: any exception of the parse stores the raw string.\<close>

definition parse_date_iso :: "pylib \<Rightarrow> string \<Rightarrow> pydict" where
  "parse_date_iso L raw =
     [(''createdAt'',
       PStr (case iso_roundtrip L (replace_Z raw) of Some created_at \<Rightarrow> created_at | None \<Rightarrow> raw))]"

definition extract_consumer_from_card :: "pylib \<Rightarrow> card \<Rightarrow> consumer" where
  "extract_consumer_from_card L cd =
     (let name_c = or_else (sel_consumer_name cd) (sel_consumer_name_class cd);
          image_url = (case sel_img_src cd of Some (Some src) \<Rightarrow> Some src | _ \<Rightarrow> None);
          country_code =
            (case or_else (sel_consumer_country cd) (sel_consumer_details_class cd) of
               None \<Rightarrow> None
             | Some country_text \<Rightarrow>
                 (if country_text \<noteq> [] \<and> length country_text \<le> 3
                  then Some (upper country_text) else None));
          number_of_reviews =
            (case attr_consumer_reviews_count cd of
               None \<Rightarrow> None
             | Some v \<Rightarrow> safe_int L (PStr v));
          is_verified_c = (has_badge_verified cd \<or> has_review_verified cd)
      in \<lparr>c_id = None, displayName = name_c, imageUrl = image_url,
          isVerified = is_verified_c, numberOfReviews = number_of_reviews,
          countryCode = country_code\<rparr>)"

text \<open>The first token of the label that \<open>_safe_int\<close> accepts.\<close>

fun first_int :: "pylib \<Rightarrow> string list \<Rightarrow> int option" where
  "first_int L [] = None"
| "first_int L (token # tokens) =
     (case safe_int L (PStr token) of Some maybe \<Rightarrow> Some maybe | None \<Rightarrow> first_int L tokens)"

definition extract_rating_from_card :: "pylib \<Rightarrow> card \<Rightarrow> int option" where
  "extract_rating_from_card L cd =
     (case attr_data_rating cd of
        Some v \<Rightarrow> safe_int L (PStr v)
      | None \<Rightarrow>
          (case attr_service_review_rating cd of
             Some v \<Rightarrow> safe_int L (PStr v)
           | None \<Rightarrow>
               (case attr_aria_rated cd of
                  Some label \<Rightarrow> first_int L (split_ws label)
                | None \<Rightarrow> None)))"

definition extract_review_id :: "pylib \<Rightarrow> card \<Rightarrow> string option" where
  "extract_review_id L cd =
     (case first_anchor_href cd of
        None \<Rightarrow> None
      | Some href \<Rightarrow>
          (let parts = filter (\<lambda>p. p \<noteq> []) (split_on CHR ''/'' (url_path L href) [])
           in if parts \<noteq> [] then Some (last parts) else Some href))"

text \<open>The body of the loop of \<open>_parse_reviews_from_html\<close> for one card.\<close>

definition review_of_card :: "pylib \<Rightarrow> card \<Rightarrow> review" where
  "review_of_card L cd =
     (let title = or_else (sel_h2 cd) (sel_review_title cd);
          text_r = or_else (sel_text_typography cd) (sel_content_text cd);
          rating_r = extract_rating_from_card L cd;
          date_raw =
            (case sel_time cd of
               None \<Rightarrow> []
             | Some date_el \<Rightarrow>
                 (case datetime_attr date_el of Some v \<Rightarrow> v | None \<Rightarrow> time_text date_el));
          date_obj = (if date_raw \<noteq> [] then parse_date_iso L date_raw
                      else [(''createdAt'', PNone)]);
          consumer_r = extract_consumer_from_card L cd;
          review_id =
            (case attr_service_review_id cd of
               Some v \<Rightarrow> (if v \<noteq> [] then Some v else extract_review_id L cd)
             | None \<Rightarrow> extract_review_id L cd)
      in \<lparr>r_id = review_id, r_text = text_r, r_title = title, r_rating = rating_r,
          r_date = date_obj, r_consumer = consumer_r\<rparr>)"

definition parse_reviews_from_html :: "pylib \<Rightarrow> string \<Rightarrow> review list" where
  "parse_reviews_from_html L html = map (review_of_card L) (review_cards L html)"

text \<open>\<open>reviews[:max_reviews]\<close>: an index that is no integer is a \<open>TypeError\<close>.\<close>

fun slice_to :: "'a list \<Rightarrow> pyval \<Rightarrow> error + 'a list" where
  "slice_to xs (PInt n) = Inr (take (nat n) xs)"
| "slice_to xs (PBool b) = Inr (take (if b then 1 else 0) xs)"
| "slice_to xs _ = Inl TypeError"

definition fetch_reviews :: "pylib \<Rightarrow> string \<Rightarrow> pyval \<Rightarrow> pyval \<Rightarrow> error + review list" where
  "fetch_reviews L company_url language max_reviews =
     (case http_get_lang L company_url language of
        None \<Rightarrow> Inr []
      | Some page \<Rightarrow>
          (let revs = parse_reviews_from_html L page
           in if max_reviews = PNone then Inr revs
              else (case py_ge max_reviews 0 of
                      Inl e \<Rightarrow> Inl e
                    | Inr False \<Rightarrow> Inr revs
                    | Inr True \<Rightarrow> slice_to revs max_reviews)))"

section \<open>The structured-data extractor (company\_parser.py)\<close>

subsection \<open>String operations\<close>

definition startswith_slash :: "string \<Rightarrow> bool" where
  "startswith_slash s = (case s of [] \<Rightarrow> False | c # cs \<Rightarrow> c = CHR ''/'')"

text \<open>\<open>sub in s\<close> on strings.\<close>

fun contains :: "string \<Rightarrow> string \<Rightarrow> bool" where
  "contains sub [] = (sub = [])"
| "contains sub (c # cs) = (take (length sub) (c # cs) = sub \<or> contains sub cs)"

text \<open>\<open>sep.join(xs)\<close> on strings.\<close>

fun join :: "string \<Rightarrow> string list \<Rightarrow> string" where
  "join sep [] = []"
| "join sep [x] = x"
| "join sep (x # y # ys) = x @ sep @ join sep (y # ys)"

text \<open>\<open>sep.join(vs)\<close> on values: an item that is no string is a \<open>TypeError\<close>.\<close>

fun strings_of :: "pyval list \<Rightarrow> error + string list" where
  "strings_of [] = Inr []"
| "strings_of (PStr s # vs) =
     (case strings_of vs of Inl e \<Rightarrow> Inl e | Inr ss \<Rightarrow> Inr (s # ss))"
| "strings_of (v # vs) = Inl TypeError"

definition py_join :: "string \<Rightarrow> pyval list \<Rightarrow> error + string" where
  "py_join sep vs = (case strings_of vs of Inl e \<Rightarrow> Inl e | Inr ss \<Rightarrow> Inr (join sep ss))"

definition strip :: "string \<Rightarrow> string" where
  "strip s = rev (dropWhile is_space (rev (dropWhile is_space s)))"

definition endswith_dot :: "string \<Rightarrow> bool" where
  "endswith_dot s = (s \<noteq> [] \<and> last s = CHR ''.'')"

definition rstrip_slash :: "string \<Rightarrow> string" where
  "rstrip_slash s = rev (dropWhile (\<lambda>c. c = CHR ''/'') (rev s))"

text \<open>\<open>a or b\<close> on optional strings, and \<open>a or ""\<close>.\<close>

definition str_or :: "string option \<Rightarrow> string option \<Rightarrow> string option" where
  "str_or a b = (case a of None \<Rightarrow> b | Some s \<Rightarrow> (if s \<noteq> [] then Some s else b))"

definition or_empty :: "string option \<Rightarrow> string" where
  "or_empty a = (case a of None \<Rightarrow> [] | Some s \<Rightarrow> s)"

text \<open>The format \<open>{v:.1f}\<close>: a string has no such format code, a list or a dict no
  format at all.\<close>

definition py_fmt_1f :: "pylib \<Rightarrow> pyval \<Rightarrow> error + string" where
  "py_fmt_1f L v =
     (case num_of v of
        Some r \<Rightarrow> Inr (fmt_1f L r)
      | None \<Rightarrow> (case v of
                   PStr s \<Rightarrow> Inl (ValueError ''Unknown format code'')
                 | _ \<Rightarrow> Inl TypeError))"

text \<open>
  A key of a \<open>set\<close> or a \<open>dict\<close>: a list or a dict cannot be hashed (\<open>None\<close> here,
  a \<open>TypeError\<close> in the program); numbers of equal value are the same key.
\<close>

fun norm_key :: "pyval \<Rightarrow> pyval option" where
  "norm_key PNone = Some PNone"
| "norm_key (PStr s) = Some (PStr s)"
| "norm_key (PInt i) = Some (PFloat (real_of_int i))"
| "norm_key (PFloat r) = Some (PFloat r)"
| "norm_key (PBool b) = Some (PFloat (if b then 1 else 0))"
| "norm_key (PList xs) = None"
| "norm_key (PDict kvs) = None"

subsection \<open>The summary record\<close>

text \<open>
  \<open>_build_ai_summary\<close> in two steps: the text of the summary, which is the function up
  to its \<open>return\<close>, and the record returned; \<open>tick\<close> counts the readings of the clock
  so far.
\<close>

definition summary_text :: "pylib \<Rightarrow> company \<Rightarrow> error + string" where
  "summary_text L c =
     (let parts1 =
            (if truthy (name c) then [str_of L (name c) @ '' is a business listed on Trustpilot'']
             else [''This business is listed on Trustpilot'']);
          parts2 =
            (if categories c \<noteq> []
             then [''operating in the '' @ join '', '' (sort (remdups (categories c))) @ '' sector'']
             else [])
      in case (if truthy (country c)
               then (case py_join '', '' (filter truthy [city c, country c]) of
                       Inl e \<Rightarrow> Inl e
                     | Inr loc \<Rightarrow>
                         Inr (if loc \<noteq> [] then [''and appears to be based in '' @ loc] else []))
               else Inr []) of
           Inl e \<Rightarrow> Inl e
         | Inr parts3 \<Rightarrow>
             (case (if ratingValue c \<noteq> PNone \<and> reviewCount c \<noteq> PNone
                    then (case py_fmt_1f L (ratingValue c) of
                            Inl e \<Rightarrow> Inl e
                          | Inr f \<Rightarrow>
                              Inr [''with an average rating of '' @ f @ '' from ''
                                   @ str_of L (reviewCount c) @ '' reviews''])
                    else if ratingValue c \<noteq> PNone
                    then (case py_fmt_1f L (ratingValue c) of
                            Inl e \<Rightarrow> Inl e
                          | Inr f \<Rightarrow> Inr [''and an average rating of '' @ f])
                    else Inr []) of
                Inl e \<Rightarrow> Inl e
              | Inr parts4 \<Rightarrow>
                  (let summary0 = strip (join '', '' (parts1 @ parts2 @ parts3 @ parts4))
                   in Inr (if summary0 \<noteq> [] \<and> \<not> endswith_dot summary0
                           then summary0 @ ''.'' else summary0))))"

definition build_ai_summary :: "pylib \<Rightarrow> nat \<Rightarrow> company \<Rightarrow> error + pydict" where
  "build_ai_summary L tick c =
     (case summary_text L c of
        Inl e \<Rightarrow> Inl e
      | Inr summary \<Rightarrow>
          Inr [(''summary'', PStr summary),
               (''status'', PStr ''success''),
               (''lang'', PStr ''en''),
               (''updatedAt'', PStr (utc_now L tick))])"

subsection \<open>One structured-data object\<close>

text \<open>\<open>[t.lower() for t in at_type]\<close>, \<open>[at_type.lower()]\<close> or \<open>[]\<close>.\<close>

fun lower_all :: "pyval list \<Rightarrow> error + string list" where
  "lower_all [] = Inr []"
| "lower_all (t # ts) =
     (case py_lower t of
        Inl e \<Rightarrow> Inl e
      | Inr s \<Rightarrow> (case lower_all ts of Inl e \<Rightarrow> Inl e | Inr ss \<Rightarrow> Inr (s # ss)))"

fun declared_types :: "pyval \<Rightarrow> error + string list" where
  "declared_types (PList ts) = lower_all ts"
| "declared_types (PStr s) = Inr [lower s]"
| "declared_types _ = Inr []"

definition is_business :: "string list \<Rightarrow> bool" where
  "is_business types = list_ex (\<lambda>t. t \<in> set [''organization'', ''localbusiness'']) types"

text \<open>\<open>url\<close> after \<open>if url and url.startswith("/"): url = urljoin(base_url, url)\<close>.\<close>

definition resolve_url :: "pylib \<Rightarrow> pyval \<Rightarrow> string \<Rightarrow> error + string option" where
  "resolve_url L url base_url =
     (if \<not> truthy url then Inr None
      else (case url of
              PStr s \<Rightarrow> Inr (Some (if startswith_slash s then urljoin L base_url s else s))
            | _ \<Rightarrow> Inl AttributeError))"

text \<open>\<open>agg.get\<close>: only a dict has the method.\<close>

fun as_dict :: "pyval \<Rightarrow> error + pydict" where
  "as_dict (PDict d) = Inr d"
| "as_dict _ = Inl AttributeError"

definition address_of :: "pydict \<Rightarrow> pydict" where
  "address_of d =
     (let address_data0 = py_or (dict_get d ''address'') (PDict []);
          address_data1 = (case address_data0 of PList (x # xs) \<Rightarrow> x | _ \<Rightarrow> address_data0)
      in case address_data1 of PDict a \<Rightarrow> a | _ \<Rightarrow> [])"

fun first_external :: "pyval list \<Rightarrow> string option" where
  "first_external [] = None"
| "first_external (PStr entry # es) =
     (if \<not> contains ''trustpilot'' entry then Some entry else first_external es)"
| "first_external (v # es) = first_external es"

fun website_of :: "pyval \<Rightarrow> string option" where
  "website_of (PList es) = first_external es"
| "website_of (PStr s) = Some s"
| "website_of _ = None"

definition extract_domain :: "pylib \<Rightarrow> string option \<Rightarrow> string option" where
  "extract_domain L url =
     (case url of
        None \<Rightarrow> None
      | Some u \<Rightarrow> (if u = [] then None
                   else (if netloc L u = [] then None else Some (netloc L u))))"

fun categories_of :: "pylib \<Rightarrow> pyval \<Rightarrow> string list" where
  "categories_of L (PList cs) = map (str_of L) cs"
| "categories_of L (PStr s) = [s]"
| "categories_of L _ = []"

text \<open>
  \<open>_company_from_ld_json\<close> in three steps: the checks that may return \<open>None\<close> or raise,
  the record built by the call of \<open>Company\<close> with the categories assigned after it, and
  the summary. \<open>company_record\<close> takes the object, the resolved URL and the aggregate
  rating.
\<close>

definition company_record ::
  "pylib \<Rightarrow> pydict \<Rightarrow> string option \<Rightarrow> pydict \<Rightarrow> string option \<Rightarrow> company" where
  "company_record L d url agg categories_id_hint =
     (let rating_value = safe_float L (dict_get agg ''ratingValue'');
          review_count = safe_int L (dict_get agg ''reviewCount'');
          address_data = address_of d;
          postal = py_or (dict_get address_data ''postalCode'') PNone;
          city_v = py_or (dict_get address_data ''addressLocality'') PNone;
          country_v = py_or (dict_get address_data ''addressCountry'') PNone;
          street = py_or (dict_get address_data ''streetAddress'') PNone;
          website_url = website_of (dict_get d ''sameAs'');
          domain_v = extract_domain L (str_or website_url url)
      in \<lparr>ID = py_or (dict_get d ''@id'') (PStr (or_empty (str_or domain_v url))),
          domain = domain_v,
          ratingValue = (case rating_value of None \<Rightarrow> PNone | Some r \<Rightarrow> PFloat r),
          reviewCount = (case review_count of None \<Rightarrow> PNone | Some n \<Rightarrow> PInt n),
          name = dict_get d ''name'',
          description = dict_get d ''description'',
          image_c = dict_get d ''image'',
          country = country_v,
          address = street,
          city = city_v,
          zipCode = postal,
          website = website_url,
          email = None,
          phone = dict_get d ''telephone'',
          categories = categories_of L (py_or (dict_get d ''category'') (dict_get d ''keywords'')),
          categoriesID =
            (case categories_id_hint of
               None \<Rightarrow> []
             | Some h \<Rightarrow> (if h \<noteq> [] then [h] else [])),
          lastReviews = [],
          reviews = [],
          rating =
            [(''bestRating'',
              PStr (str_of L (py_or (dict_get agg ''bestRating'') (PStr ''5'')))),
             (''worstRating'',
              PStr (str_of L (py_or (dict_get agg ''worstRating'') (PStr ''1'')))),
             (''ratingValue'',
              (case rating_value of None \<Rightarrow> PNone | Some r \<Rightarrow> PStr (str_of L (PFloat r)))),
             (''reviewCount'',
              (case review_count of None \<Rightarrow> PNone | Some n \<Rightarrow> PStr (str_of L (PInt n))))],
          data =
            [(''one'', PInt 0), (''two'', PInt 0), (''three'', PInt 0),
             (''four'', PInt 0), (''five'', PInt 0),
             (''total'', PInt (case review_count of None \<Rightarrow> 0 | Some n \<Rightarrow> n))],
          similarBusinessUnits = [],
          aiSummary = [],
          sourceUrl = url\<rparr>)"

definition company_from_ld_json ::
  "pylib \<Rightarrow> nat \<Rightarrow> pyval \<Rightarrow> string \<Rightarrow> string option \<Rightarrow> error + company option" where
  "company_from_ld_json L tick dat base_url categories_id_hint =
     (case dat of
        PDict d \<Rightarrow>
          (case declared_types (dict_get d ''@type'') of
             Inl e \<Rightarrow> Inl e
           | Inr types \<Rightarrow>
               if \<not> is_business types then Inr None
               else
                 (case resolve_url L (py_or (py_or (dict_get d ''url'') (dict_get d ''@id'')) PNone)
                         base_url of
                    Inl e \<Rightarrow> Inl e
                  | Inr url \<Rightarrow>
                      (case as_dict (py_or (dict_get d ''aggregateRating'') (PDict [])) of
                         Inl e \<Rightarrow> Inl e
                       | Inr agg \<Rightarrow>
                           (case build_ai_summary L tick
                                   (company_record L d url agg categories_id_hint) of
                              Inl e \<Rightarrow> Inl e
                            | Inr summary \<Rightarrow>
                                Inr (Some ((company_record L d url agg categories_id_hint)
                                             \<lparr>aiSummary := summary\<rparr>))))))
      | _ \<Rightarrow> Inr None)"

subsection \<open>All structured-data blocks of a page\<close>

text \<open>
  The state of the two nested loops of \<open>_parse_ld_json_blocks\<close>: the companies so far,
  the keys in \<open>seen_ids\<close>, and the count of clock readings.
\<close>

type_synonym blocks_state = "company list \<times> pyval list \<times> nat"

fun items_loop ::
  "pylib \<Rightarrow> string \<Rightarrow> string option \<Rightarrow> pyval list \<Rightarrow> blocks_state \<Rightarrow> error + blocks_state" where
  "items_loop L base_url hint [] st = Inr st"
| "items_loop L base_url hint (item # items) (companies, seen_ids, tick) =
     (case item of
        PDict d \<Rightarrow>
          (case company_from_ld_json L tick item base_url hint of
             Inl e \<Rightarrow> Inl e
           | Inr None \<Rightarrow> items_loop L base_url hint items (companies, seen_ids, tick)
           | Inr (Some c) \<Rightarrow>
               (case norm_key (ID c) of
                  None \<Rightarrow> Inl TypeError
                | Some k \<Rightarrow>
                    if k \<in> set seen_ids
                    then items_loop L base_url hint items (companies, seen_ids, Suc tick)
                    else items_loop L base_url hint items
                           (companies @ [c], seen_ids @ [k], Suc tick)))
      | _ \<Rightarrow> items_loop L base_url hint items (companies, seen_ids, tick))"

fun blocks_loop ::
  "pylib \<Rightarrow> string \<Rightarrow> string option \<Rightarrow> string list \<Rightarrow> blocks_state \<Rightarrow> error + blocks_state" where
  "blocks_loop L base_url hint [] st = Inr st"
| "blocks_loop L base_url hint (raw # raws) st =
     (if raw = [] then blocks_loop L base_url hint raws st
      else (case json_loads L raw of
              None \<Rightarrow> blocks_loop L base_url hint raws st
            | Some dat \<Rightarrow>
                (case items_loop L base_url hint (case dat of PList xs \<Rightarrow> xs | _ \<Rightarrow> [dat]) st of
                   Inl e \<Rightarrow> Inl e
                 | Inr st' \<Rightarrow> blocks_loop L base_url hint raws st')))"

definition parse_ld_json_blocks ::
  "pylib \<Rightarrow> nat \<Rightarrow> string \<Rightarrow> string \<Rightarrow> string option \<Rightarrow> error + company list \<times> nat" where
  "parse_ld_json_blocks L tick html base_url hint =
     (case blocks_loop L base_url hint (ld_json_scripts L html) ([], [], tick) of
        Inl e \<Rightarrow> Inl e
      | Inr (companies, seen_ids, tick') \<Rightarrow> Inr (companies, tick'))"

section \<open>The search orchestrator (company\_parser.py)\<close>

text \<open>\<open>int(v)\<close> outside a \<open>try\<close>.\<close>

fun py_int :: "pylib \<Rightarrow> pyval \<Rightarrow> error + int" where
  "py_int L (PInt i) = Inr i"
| "py_int L (PBool b) = Inr (if b then 1 else 0)"
| "py_int L (PFloat r) = Inr (trunc r)"
| "py_int L (PStr s) =
     (case int_of_str L s of
        Some i \<Rightarrow> Inr i
      | None \<Rightarrow> Inl (ValueError ''invalid literal for int()''))"
| "py_int L _ = Inl TypeError"

text \<open>\<open>d.get(k, default)\<close>.\<close>

definition dict_get_default :: "pydict \<Rightarrow> string \<Rightarrow> pyval \<Rightarrow> pyval" where
  "dict_get_default d k dflt = (case map_of d k of None \<Rightarrow> dflt | Some v \<Rightarrow> v)"

definition limit_pages :: "pylib \<Rightarrow> pydict \<Rightarrow> pydict \<Rightarrow> error + int" where
  "limit_pages L params config =
     (if truthy (dict_get params ''allPages'')
      then py_int L (dict_get_default config ''maxPages'' (PInt 5))
      else py_int L (py_or (dict_get_default params ''pages'' (PInt 1)) (PInt 1)))"

text \<open>\<open>_fetch_page\<close>: the page text, \<open>None\<close> for a failed request.\<close>

definition fetch_page :: "pylib \<Rightarrow> string \<Rightarrow> string option" where
  "fetch_page L url = http_get L url"

text \<open>
  \<open>_attach_reviews_to_companies\<close>. The program updates each company in place; the
  companies of the list are distinct objects, so the model returns the updated list. An
  exception of \<open>fetch_reviews\<close> is caught and the company is left as it is.
\<close>

definition attach_one :: "pylib \<Rightarrow> pyval \<Rightarrow> pyval \<Rightarrow> company \<Rightarrow> company" where
  "attach_one L language max_reviews c =
     (case sourceUrl c of
        None \<Rightarrow> c
      | Some u \<Rightarrow>
          (if u = [] then c
           else (case fetch_reviews L u language max_reviews of
                   Inl e \<Rightarrow> c
                 | Inr revs \<Rightarrow>
                     c\<lparr>reviews := revs,
                       lastReviews := (if revs \<noteq> [] then take 3 revs else [])\<rparr>)))"

definition attach_reviews_to_companies ::
  "pylib \<Rightarrow> company list \<Rightarrow> pydict \<Rightarrow> pydict \<Rightarrow> company list" where
  "attach_reviews_to_companies L companies config params =
     (if \<not> truthy (dict_get params ''includeReviews'') then companies
      else (let max_reviews = dict_get params ''maxReviewsPerCompany'';
                language = py_or (dict_get params ''language'')
                                 (dict_get_default config ''defaultLanguage'' (PStr ''en''))
            in map (attach_one L language max_reviews) companies))"

text \<open>
  The page loop of \<open>_search_by_category\<close> and of \<open>_search_by_keyword\<close>, which differ in
  the URL of a page and in the category hint only: \<open>url_of page\<close> is the URL.
\<close>

fun pages_loop ::
  "pylib \<Rightarrow> (int \<Rightarrow> string) \<Rightarrow> string \<Rightarrow> string option \<Rightarrow> int list \<Rightarrow> company list \<times> nat
     \<Rightarrow> error + company list \<times> nat" where
  "pages_loop L url_of base_url hint [] st = Inr st"
| "pages_loop L url_of base_url hint (page # pages) (companies, tick) =
     (case fetch_page L (url_of page) of
        None \<Rightarrow> pages_loop L url_of base_url hint pages (companies, tick)
      | Some html \<Rightarrow>
          (if html = [] then pages_loop L url_of base_url hint pages (companies, tick)
           else (case parse_ld_json_blocks L tick html base_url hint of
                   Inl e \<Rightarrow> Inl e
                 | Inr (batch, tick') \<Rightarrow>
                     pages_loop L url_of base_url hint pages (companies @ batch, tick'))))"

text \<open>A string between double quotes, for the messages of the errors.\<close>

definition quoted :: "string \<Rightarrow> string" where
  "quoted s = CHR 0x22 # s @ [CHR 0x22]"

definition missing_parameter :: "string \<Rightarrow> string \<Rightarrow> error" where
  "missing_parameter mode key =
     ValueError (''For searchType='' @ quoted mode @ '' you must provide '' @ quoted key @ ''.'')"

definition search_by_category ::
  "pylib \<Rightarrow> string \<Rightarrow> pydict \<Rightarrow> pydict \<Rightarrow> error + company list" where
  "search_by_category L base_url params config =
     (let category_id = dict_get params ''categoryId''
      in if \<not> truthy category_id then Inl (missing_parameter ''category'' ''categoryId'')
         else (case limit_pages L params config of
                 Inl e \<Rightarrow> Inl e
               | Inr pages_to_fetch \<Rightarrow>
                   (case pages_loop L
                           (\<lambda>page. base_url @ ''/categories/'' @ str_of L category_id
                                    @ ''?page='' @ str_of L (PInt page))
                           base_url (Some (str_of L category_id)) [1..pages_to_fetch] ([], 0) of
                      Inl e \<Rightarrow> Inl e
                    | Inr (companies, tick) \<Rightarrow>
                        Inr (attach_reviews_to_companies L companies config params))))"

definition search_by_keyword ::
  "pylib \<Rightarrow> string \<Rightarrow> pydict \<Rightarrow> pydict \<Rightarrow> error + company list" where
  "search_by_keyword L base_url params config =
     (let keyword = dict_get params ''keyword''
      in if \<not> truthy keyword then Inl (missing_parameter ''keyword'' ''keyword'')
         else (case limit_pages L params config of
                 Inl e \<Rightarrow> Inl e
               | Inr pages_to_fetch \<Rightarrow>
                   (case pages_loop L
                           (\<lambda>page. base_url @ ''/search?query='' @ str_of L keyword
                                    @ ''&page='' @ str_of L (PInt page))
                           base_url None [1..pages_to_fetch] ([], 0) of
                      Inl e \<Rightarrow> Inl e
                    | Inr (companies, tick) \<Rightarrow>
                        Inr (attach_reviews_to_companies L companies config params))))"

definition search_detail ::
  "pylib \<Rightarrow> string \<Rightarrow> pydict \<Rightarrow> pydict \<Rightarrow> error + company list" where
  "search_detail L base_url params config =
     (let domain_p = dict_get params ''domain''
      in if \<not> truthy domain_p then Inl (missing_parameter ''detail'' ''domain'')
         else (case fetch_page L (base_url @ ''/review/'' @ str_of L domain_p) of
                 None \<Rightarrow> Inr []
               | Some html \<Rightarrow>
                   (if html = [] then Inr []
                    else (case parse_ld_json_blocks L 0 html base_url None of
                            Inl e \<Rightarrow> Inl e
                          | Inr (companies, tick) \<Rightarrow>
                              (if companies = [] then Inr []
                               else Inr (attach_reviews_to_companies L companies config
                                           params))))))"

text \<open>
  The first part of \<open>search_companies\<close>: the base URL, the mode and the search of
  that mode.
\<close>

definition collect_companies :: "pylib \<Rightarrow> pydict \<Rightarrow> pydict \<Rightarrow> error + company list" where
  "collect_companies L params config =
     (case dict_get_default config ''baseUrl'' (PStr ''https://www.trustpilot.com'') of
        PStr b \<Rightarrow>
          (let base_url = rstrip_slash b
           in case py_lower (py_or (dict_get params ''searchType'') (PStr ''category'')) of
                Inl e \<Rightarrow> Inl e
              | Inr search_type \<Rightarrow>
                  if search_type = ''category'' then search_by_category L base_url params config
                  else if search_type = ''keyword'' then search_by_keyword L base_url params config
                  else if search_type = ''detail'' then search_detail L base_url params config
                  else Inl (ValueError (''Unsupported searchType: '' @ search_type)))
      | _ \<Rightarrow> Inl AttributeError)"

text \<open>The key of a company in the last loop of \<open>search_companies\<close>.\<close>

definition company_key :: "company \<Rightarrow> pyval" where
  "company_key c =
     (if \<not> truthy (ID c) then PStr (or_empty (str_or (domain c) (sourceUrl c)))
      else ID c)"

text \<open>
  The dict \<open>unique\<close> in insertion order; looking a key up hashes it, so a truthy key
  that is a list or a dict is a \<open>TypeError\<close>.
\<close>

fun dedup_loop ::
  "company list \<Rightarrow> (pyval \<times> company) list \<Rightarrow> error + (pyval \<times> company) list" where
  "dedup_loop [] unique = Inr unique"
| "dedup_loop (c # cs) unique =
     (if truthy (company_key c)
      then (case norm_key (company_key c) of
              None \<Rightarrow> Inl TypeError
            | Some k \<Rightarrow>
                if k \<notin> set (map fst unique) then dedup_loop cs (unique @ [(k, c)])
                else dedup_loop cs unique)
      else dedup_loop cs unique)"

definition search_companies :: "pylib \<Rightarrow> pydict \<Rightarrow> pydict \<Rightarrow> error + company list" where
  "search_companies L params config =
     (case collect_companies L params config of
        Inl e \<Rightarrow> Inl e
      | Inr companies \<Rightarrow>
          (case dedup_loop companies [] of
             Inl e \<Rightarrow> Inl e
           | Inr unique \<Rightarrow> Inr (map snd unique)))"

section \<open>Auxiliary definitions for the statements\<close>

text \<open>
  What the last loop of \<open>search_companies\<close> guarantees for an entry \<open>(k, c)\<close> it adds
  while running over \<open>cs\<close> with the keys \<open>seen\<close> already taken: \<open>k\<close> is the key of
  \<open>c\<close>, it is truthy and new, and \<open>c\<close> is the first company of \<open>cs\<close> with that key.
\<close>

definition kept_ok :: "company list \<Rightarrow> pyval list \<Rightarrow> pyval \<times> company \<Rightarrow> bool" where
  "kept_ok cs seen p =
     (norm_key (company_key (snd p)) = Some (fst p) \<and> truthy (company_key (snd p))
      \<and> fst p \<notin> set seen
      \<and> find (\<lambda>d. norm_key (company_key d) = Some (fst p)) cs = Some (snd p))"

text \<open>
  A library in which every request returns a page with one structured-data block, and
  that block parses to \<open>dat\<close>.
\<close>

definition page_lib :: "pyval \<Rightarrow> pylib" where
  "page_lib dat =
     lib0\<lparr>json_loads := (\<lambda>s. Some dat), ld_json_scripts := (\<lambda>h. [''{}'']),
          http_get := (\<lambda>u. Some ''<html>'')\<rparr>"


text \<open>
  Two structured-data objects for the examples, and the company that the extractor
  builds from the first one under \<open>page_lib\<close> with the category hint \<open>c\<close>.
\<close>

definition org_a :: pyval where
  "org_a = PDict [(''@type'', PStr ''Organization''), (''@id'', PStr ''a'')]"

definition org_anon :: pyval where
  "org_anon = PDict [(''@type'', PStr ''Organization'')]"

definition company_a :: company where
  "company_a =
     (Company (PStr ''a''))
       \<lparr>categoriesID := [''c''],
        rating := [(''bestRating'', PStr ''5''), (''worstRating'', PStr ''1''),
                   (''ratingValue'', PNone), (''reviewCount'', PNone)],
        data := [(''one'', PInt 0), (''two'', PInt 0), (''three'', PInt 0),
                 (''four'', PInt 0), (''five'', PInt 0), (''total'', PInt 0)],
        aiSummary := [(''summary'', PStr ''This business is listed on Trustpilot.''),
                      (''status'', PStr ''success''), (''lang'', PStr ''en''),
                      (''updatedAt'', PStr [])],
        sourceUrl := Some ''a''\<rparr>"

text \<open>
  A structured-data object that is no business: not a dict, or a dict whose declared
  types lower-case without error to names outside the allow-set. A block without a
  business: empty, not parseable, or parsed to objects that are no business.
\<close>

definition no_match :: "pyval \<Rightarrow> bool" where
  "no_match item =
     (case item of
        PDict d \<Rightarrow> (case declared_types (dict_get d ''@type'') of
                      Inl e \<Rightarrow> False
                    | Inr types \<Rightarrow> \<not> is_business types)
      | _ \<Rightarrow> True)"


text \<open>
  A company without the time stamp of its summary record, and a library with a clock
  that reads \<open>now\<close> at every reading.
\<close>

definition unstamp :: "company \<Rightarrow> company" where
  "unstamp c = c\<lparr>aiSummary := filter (\<lambda>kv. fst kv \<noteq> ''updatedAt'') (aiSummary c)\<rparr>"

definition clock_lib :: "string \<Rightarrow> pyval \<Rightarrow> pylib" where
  "clock_lib now dat = (page_lib dat)\<lparr>utc_now := (\<lambda>n. now)\<rparr>"

text \<open>
  Two states of the block loops that agree up to the time stamps of their companies
  and the count of clock readings.
\<close>

definition same_unstamped :: "blocks_state \<Rightarrow> blocks_state \<Rightarrow> bool" where
  "same_unstamped st' st =
     (map unstamp (fst st') = map unstamp (fst st) \<and> fst (snd st') = fst (snd st))"

text \<open>The summary record of a company holds a reading of the clock of \<open>L\<close>.\<close>

definition stamped_by :: "pylib \<Rightarrow> company \<Rightarrow> bool" where
  "stamped_by L c = (\<exists>i. dict_get (aiSummary c) ''updatedAt'' = PStr (utc_now L i))"

text \<open>
  The date of a review in the words of the specification: the raw string is the
  \<open>datetime\<close> attribute of the time element, else its visible text; a trailing "Z" is
  read as the UTC offset; a string that parses is stored re-serialised, any other string
  verbatim; without a time element the value is null.
\<close>

definition date_raw_of :: "time_el \<Rightarrow> string" where
  "date_raw_of el = (case datetime_attr el of Some v \<Rightarrow> v | None \<Rightarrow> time_text el)"

definition replace_trailing_Z :: "string \<Rightarrow> string" where
  "replace_trailing_Z raw =
     (if raw \<noteq> [] \<and> last raw = CHR ''Z'' then butlast raw @ ''+00:00'' else raw)"

definition claimed_date :: "pylib \<Rightarrow> card \<Rightarrow> pydict" where
  "claimed_date L cd =
     (case sel_time cd of
        None \<Rightarrow> [(''createdAt'', PNone)]
      | Some el \<Rightarrow>
          [(''createdAt'',
            PStr (case iso_roundtrip L (replace_trailing_Z (date_raw_of el)) of
                    Some s \<Rightarrow> s
                  | None \<Rightarrow> date_raw_of el))])"

text \<open>
  A card on which every query finds nothing, and a library that parses and prints the
  one time stamp of the scenario of the specification.
\<close>

definition empty_card :: card where
  "empty_card =
     \<lparr>sel_h2 = None, sel_review_title = None, sel_text_typography = None,
      sel_content_text = None, attr_data_rating = None, attr_service_review_rating = None,
      attr_aria_rated = None, sel_time = None, sel_consumer_name = None,
      sel_consumer_name_class = None, sel_img_src = None, sel_consumer_country = None,
      sel_consumer_details_class = None, attr_consumer_reviews_count = None,
      has_badge_verified = False, has_review_verified = False,
      attr_service_review_id = None, first_anchor_href = None\<rparr>"

definition iso_lib :: pylib where
  "iso_lib =
     lib0\<lparr>iso_roundtrip :=
            (\<lambda>s. if s = ''2024-01-01T00:00:00+00:00'' then Some s else None)\<rparr>"

section \<open>Properties of the filter engine\<close>

lemma passes_cases:
  "passes_filters L mt cty mr vo c = Inr True \<longleftrightarrow>
     (meets_min_trust L c mt \<and> matches_country c cty = Inr True
      \<and> has_min_reviews c mr = Inr True \<and> (vo \<longrightarrow> is_verified c = Inr True))"
  by (auto simp: passes_filters_def split: sum.splits bool.splits)

lemma is_verified_iff: "is_verified c = Inr True \<longleftrightarrow> verified_like c"
  by (auto simp: is_verified_def verified_like_def py_ge_def split: option.splits sum.splits bool.splits if_splits)

lemma filter_loop_Inr:
  "filter_loop L mt cty mr vo cs acc = Inr r \<Longrightarrow>
     r = acc @ filter (\<lambda>c. passes_filters L mt cty mr vo c = Inr True) cs"
proof (induction cs arbitrary: acc)
  case Nil
  then show ?case by simp
next
  case (Cons a cs)
  show ?case
  proof (cases "passes_filters L mt cty mr vo a")
    case (Inl e)
    with Cons.prems show ?thesis by simp
  next
    case (Inr b)
    with Cons.prems
    have "filter_loop L mt cty mr vo cs (if b then acc @ [a] else acc) = Inr r" by simp
    from Cons.IH [OF this] Inr show ?thesis by (cases b) simp_all
  qed
qed







lemma apply_Inr:
  assumes "apply_company_filters L cs params = Inr r"
  shows "r = filter (\<lambda>c. passes_filters L (safe_float L (dict_get params ''minTrustScore''))
               (dict_get params ''country'') (safe_int L (dict_get params ''minReviews''))
               (truthy (dict_get params ''verifiedOnly'')) c = Inr True) cs"
  using filter_loop_Inr [of L _ _ _ _ cs "[]" r] assms
  by (simp add: apply_company_filters_def Let_def)

text \<open>
  Claim C3. Under \<open>verifiedOnly\<close> a company passes the verified predicate exactly when
  its rating and its review count are both present, the rating is at least 4.0 and the
  count at least 50. The filter keeps exactly the companies that pass the three other
  predicates and, when the flag is set, the verified predicate; with the flag absent or
  falsy the verified predicate excludes nothing.
\<close>

theorem verified_only_predicate:
  "(is_verified c = Inr True \<longleftrightarrow> verified_like c) \<and>
   (apply_company_filters L cs params = Inr r \<longrightarrow>
      r = filter (\<lambda>c. others_pass L params c
                     \<and> (truthy (dict_get params ''verifiedOnly'') \<longrightarrow> verified_like c)) cs)"
proof (intro conjI impI)
  show "is_verified c = Inr True \<longleftrightarrow> verified_like c" by (rule is_verified_iff)
next
  assume "apply_company_filters L cs params = Inr r"
  from apply_Inr [OF this] show "r = filter (\<lambda>c. others_pass L params c
                     \<and> (truthy (dict_get params ''verifiedOnly'') \<longrightarrow> verified_like c)) cs"
    by (simp add: passes_cases others_pass_def is_verified_iff)
qed

theorem verified_only_predicate_witness:
  "apply_company_filters lib0
     [(Company (PStr ''a''))\<lparr>ratingValue := PFloat 4.5, reviewCount := PInt 80\<rparr>,
      (Company (PStr ''b''))\<lparr>ratingValue := PFloat 4.5, reviewCount := PInt 49\<rparr>]
     [(''verifiedOnly'', PBool True)]
     = Inr [(Company (PStr ''a''))\<lparr>ratingValue := PFloat 4.5, reviewCount := PInt 80\<rparr>]
   \<and> [(Company (PStr ''a''))\<lparr>ratingValue := PFloat 4.5, reviewCount := PInt 80\<rparr>]
     = filter (\<lambda>c. others_pass lib0 [(''verifiedOnly'', PBool True)] c
                  \<and> (truthy (dict_get [(''verifiedOnly'', PBool True)] ''verifiedOnly'')
                       \<longrightarrow> verified_like c))
         [(Company (PStr ''a''))\<lparr>ratingValue := PFloat 4.5, reviewCount := PInt 80\<rparr>,
          (Company (PStr ''b''))\<lparr>ratingValue := PFloat 4.5, reviewCount := PInt 49\<rparr>]"
proof -
  have h: "apply_company_filters lib0
     [(Company (PStr ''a''))\<lparr>ratingValue := PFloat 4.5, reviewCount := PInt 80\<rparr>,
      (Company (PStr ''b''))\<lparr>ratingValue := PFloat 4.5, reviewCount := PInt 49\<rparr>]
     [(''verifiedOnly'', PBool True)]
     = Inr [(Company (PStr ''a''))\<lparr>ratingValue := PFloat 4.5, reviewCount := PInt 80\<rparr>]"
    by (simp add: apply_company_filters_def Let_def dict_get_def passes_filters_def
        meets_min_trust_def matches_country_def has_min_reviews_def is_verified_def py_ge_def
        Company_def)
  from verified_only_predicate [THEN conjunct2, rule_format, OF h] h show ?thesis by simp
qed




lemma string_rating_min_trust:
  "float_of_str L s = Some r \<Longrightarrow>
     meets_min_trust L (c\<lparr>ratingValue := PStr s\<rparr>) mt = meets_min_trust L (c\<lparr>ratingValue := PFloat r\<rparr>) mt"
  by (cases mt) (simp_all add: meets_min_trust_def)


section \<open>Properties of the search orchestrator\<close>

subsection \<open>The deduplication loop\<close>

lemma norm_key_truthy:
  "norm_key a = Some k \<Longrightarrow> norm_key b = Some k \<Longrightarrow> truthy a = truthy b"
  by (cases a; cases b) (auto split: if_splits)

lemma kept_ok_skip:
  assumes "kept_ok cs seen p" and "norm_key (company_key a) \<noteq> Some (fst p)"
  shows "kept_ok (a # cs) seen p"
  using assms by (simp add: kept_ok_def)

lemma kept_ok_falsy:
  assumes "kept_ok cs seen p" and "\<not> truthy (company_key a)"
  shows "kept_ok (a # cs) seen p"
proof (rule kept_ok_skip [OF assms(1)])
  show "norm_key (company_key a) \<noteq> Some (fst p)"
  proof
    assume "norm_key (company_key a) = Some (fst p)"
    moreover from assms(1) have "norm_key (company_key (snd p)) = Some (fst p)"
      and "truthy (company_key (snd p))" by (simp_all add: kept_ok_def)
    ultimately have "truthy (company_key a)" using norm_key_truthy by blast
    with assms(2) show False by simp
  qed
qed

lemma kept_ok_seen:
  assumes "kept_ok cs seen p" and "norm_key (company_key a) = Some ka" and "ka \<in> set seen"
  shows "kept_ok (a # cs) seen p"
proof (rule kept_ok_skip [OF assms(1)])
  from assms(1) have "fst p \<notin> set seen" by (simp add: kept_ok_def)
  with assms(2,3) show "norm_key (company_key a) \<noteq> Some (fst p)" by auto
qed

lemma kept_ok_new:
  assumes "kept_ok cs (seen @ [ka]) p" and "norm_key (company_key a) = Some ka"
  shows "kept_ok (a # cs) seen p" and "fst p \<noteq> ka"
proof -
  from assms(1) show ne: "fst p \<noteq> ka" by (simp add: kept_ok_def)
  with assms show "kept_ok (a # cs) seen p" by (simp add: kept_ok_def)
qed

lemma kept_ok_head:
  assumes "norm_key (company_key a) = Some ka" and "truthy (company_key a)" and "ka \<notin> set seen"
  shows "kept_ok (a # cs) seen (ka, a)"
  using assms by (simp add: kept_ok_def)

lemma dedup_loop_inv:
  "dedup_loop cs u = Inr r \<Longrightarrow>
     \<exists>u'. r = u @ u' \<and> subseq (map snd u') cs \<and> distinct (map fst u')
        \<and> (\<forall>p\<in>set u'. kept_ok cs (map fst u) p)"
proof (induction cs arbitrary: u)
  case Nil
  then show ?case by simp
next
  case (Cons a cs)
  show ?case
  proof (cases "truthy (company_key a)")
    case False
    with Cons.prems have "dedup_loop cs u = Inr r" by simp
    from Cons.IH [OF this] obtain u' where u': "r = u @ u'" "subseq (map snd u') cs"
      "distinct (map fst u')" "\<forall>p\<in>set u'. kept_ok cs (map fst u) p" by blast
    from u'(4) False have "\<forall>p\<in>set u'. kept_ok (a # cs) (map fst u) p"
      using kept_ok_falsy by blast
    moreover from u'(2) have "subseq (map snd u') (a # cs)" by (rule list_emb_Cons)
    ultimately show ?thesis using u'(1,3) by blast
  next
    case True
    show ?thesis
    proof (cases "norm_key (company_key a)")
      case None
      with True Cons.prems show ?thesis by simp
    next
      case (Some ka)
      show ?thesis
      proof (cases "ka \<in> set (map fst u)")
        case True
        with \<open>truthy (company_key a)\<close> Some Cons.prems have "dedup_loop cs u = Inr r" by simp
        from Cons.IH [OF this] obtain u' where u': "r = u @ u'" "subseq (map snd u') cs"
          "distinct (map fst u')" "\<forall>p\<in>set u'. kept_ok cs (map fst u) p" by blast
        from u'(4) True Some have "\<forall>p\<in>set u'. kept_ok (a # cs) (map fst u) p"
          using kept_ok_seen by blast
        moreover from u'(2) have "subseq (map snd u') (a # cs)" by (rule list_emb_Cons)
        ultimately show ?thesis using u'(1,3) by blast
      next
        case False
        with \<open>truthy (company_key a)\<close> Some Cons.prems
        have "dedup_loop cs (u @ [(ka, a)]) = Inr r" by simp
        from Cons.IH [OF this] obtain u' where u': "r = (u @ [(ka, a)]) @ u'"
          "subseq (map snd u') cs" "distinct (map fst u')"
          "\<forall>p\<in>set u'. kept_ok cs (map fst (u @ [(ka, a)])) p" by blast
        from u'(4) have k: "\<forall>p\<in>set u'. kept_ok cs (map fst u @ [ka]) p" by simp
        have 1: "r = u @ ((ka, a) # u')" using u'(1) by simp
        have 2: "subseq (map snd ((ka, a) # u')) (a # cs)" using u'(2) by simp
        have "\<forall>p\<in>set u'. fst p \<noteq> ka" using k Some kept_ok_new(2) by blast
        then have "ka \<notin> set (map fst u')" by auto
        with u'(3) have 3: "distinct (map fst ((ka, a) # u'))" by simp
        have "\<forall>p\<in>set u'. kept_ok (a # cs) (map fst u) p" using k Some kept_ok_new(1) by blast
        moreover have "kept_ok (a # cs) (map fst u) (ka, a)"
          using Some \<open>truthy (company_key a)\<close> False by (rule kept_ok_head)
        ultimately have 4: "\<forall>p\<in>set ((ka, a) # u'). kept_ok (a # cs) (map fst u) p" by simp
        from 1 2 3 4 show ?thesis by blast
      qed
    qed
  qed
qed

lemma dedup_loop_mono:
  "dedup_loop cs u = Inr r \<Longrightarrow> set (map fst u) \<subseteq> set (map fst r)"
proof -
  assume "dedup_loop cs u = Inr r"
  from dedup_loop_inv [OF this] obtain u' where "r = u @ u'" by blast
  then show ?thesis by simp
qed

lemma dedup_loop_step:
  assumes "dedup_loop (a # cs) u = Inr r"
  obtains u2 where "dedup_loop cs u2 = Inr r"
    and "truthy (company_key a) \<longrightarrow>
           (\<exists>k. norm_key (company_key a) = Some k \<and> k \<in> set (map fst u2))"
proof (cases "truthy (company_key a)")
  case False
  with assms have "dedup_loop cs u = Inr r" by simp
  with False that show ?thesis by blast
next
  case True
  show ?thesis
  proof (cases "norm_key (company_key a)")
    case None
    with True assms show ?thesis by simp
  next
    case (Some ka)
    show ?thesis
    proof (cases "ka \<in> set (map fst u)")
      case True
      with \<open>truthy (company_key a)\<close> Some assms have "dedup_loop cs u = Inr r" by simp
      with True Some that show ?thesis by blast
    next
      case False
      with \<open>truthy (company_key a)\<close> Some assms
      have "dedup_loop cs (u @ [(ka, a)]) = Inr r" by simp
      moreover have "ka \<in> set (map fst (u @ [(ka, a)]))" by simp
      ultimately show ?thesis using Some that by blast
    qed
  qed
qed

lemma dedup_loop_covers:
  "dedup_loop cs u = Inr r \<Longrightarrow> c \<in> set cs \<Longrightarrow> truthy (company_key c) \<Longrightarrow>
     \<exists>k. norm_key (company_key c) = Some k \<and> k \<in> set (map fst r)"
proof (induction cs arbitrary: u)
  case Nil
  then show ?case by simp
next
  case (Cons a cs)
  from dedup_loop_step [OF Cons.prems(1)] obtain u2 where
    u2: "dedup_loop cs u2 = Inr r"
    "truthy (company_key a) \<longrightarrow>
       (\<exists>k. norm_key (company_key a) = Some k \<and> k \<in> set (map fst u2))" by blast
  show ?case
  proof (cases "c = a")
    case True
    with Cons.prems(3) u2(2) obtain k where
      "norm_key (company_key c) = Some k" "k \<in> set (map fst u2)" by blast
    with dedup_loop_mono [OF u2(1)] show ?thesis by blast
  next
    case False
    with Cons.prems(2) have "c \<in> set cs" by simp
    from Cons.IH [OF u2(1) this Cons.prems(3)] show ?thesis .
  qed
qed

lemma dedup_loop_total:
  "\<forall>c\<in>set cs. truthy (company_key c) \<longrightarrow> norm_key (company_key c) \<noteq> None \<Longrightarrow>
     \<exists>r. dedup_loop cs u = Inr r"
  by (induction cs arbitrary: u) (auto split: option.splits)

subsection \<open>Where errors come from\<close>























subsection \<open>The result of the search\<close>

lemmas search_eval = collect_companies_def search_companies_def search_by_category_def
  search_by_keyword_def search_detail_def limit_pages_def
  dict_get_def dict_get_default_def py_or_def parse_ld_json_blocks_def company_from_ld_json_def
  build_ai_summary_def summary_text_def company_record_def page_lib_def lib0_def rstrip_slash_def fetch_page_def
  attach_reviews_to_companies_def is_business_def resolve_url_def address_of_def
  extract_domain_def str_or_def or_empty_def strip_def endswith_dot_def is_space_def
  company_key_def lower_def lower_char_def less_eq_char_def startswith_slash_def
  Let_def

lemma dedup_result:
  assumes "dedup_loop cs [] = Inr u"
  shows "distinct (map (\<lambda>c. norm_key (company_key c)) (map snd u))"
    and "subseq (map snd u) cs"
    and "\<forall>c\<in>set (map snd u). truthy (company_key c)
           \<and> find (\<lambda>d. norm_key (company_key d) = norm_key (company_key c)) cs = Some c"
proof -
  from dedup_loop_inv [OF assms] have inv: "subseq (map snd u) cs" "distinct (map fst u)"
    "\<forall>p\<in>set u. kept_ok cs [] p" by auto
  show "subseq (map snd u) cs" by (rule inv(1))
  have keys: "\<forall>p\<in>set u. norm_key (company_key (snd p)) = Some (fst p)"
    using inv(3) by (simp add: kept_ok_def)
  then have eq: "map (\<lambda>c. norm_key (company_key c)) (map snd u) = map Some (map fst u)"
    by (induction u) auto
  have "distinct (map Some (map fst u))"
    using inv(2) by (subst distinct_map) (simp add: inj_on_def)
  then show "distinct (map (\<lambda>c. norm_key (company_key c)) (map snd u))"
    unfolding eq .
  show "\<forall>c\<in>set (map snd u). truthy (company_key c)
           \<and> find (\<lambda>d. norm_key (company_key d) = norm_key (company_key c)) cs = Some c"
  proof
    fix c assume "c \<in> set (map snd u)"
    then obtain p where p: "p \<in> set u" "c = snd p" by auto
    with inv(3) have "kept_ok cs [] p" by blast
    with p show "truthy (company_key c)
           \<and> find (\<lambda>d. norm_key (company_key d) = norm_key (company_key c)) cs = Some c"
      by (simp add: kept_ok_def)
  qed
qed

lemma search_companies_Inr:
  assumes "collect_companies L params config = Inr cs"
    and "search_companies L params config = Inr r"
  obtains u where "dedup_loop cs [] = Inr u" and "r = map snd u"
  using assms by (auto simp: search_companies_def split: sum.splits)

text \<open>
  Claim C2. Let \<open>cs\<close> be the companies accumulated by the search of the mode. The list
  that \<open>search_companies\<close> returns has pairwise different resolved keys, is a
  subsequence of \<open>cs\<close> (order of first appearance), and each company in it is the first
  company of \<open>cs\<close> with its key; every non-empty key of \<open>cs\<close> is the key of a company
  in the result. The list is returned whenever every non-empty key can be hashed, as
  every string can.
\<close>

theorem dedup_first_occurrence:
  assumes "collect_companies L params config = Inr cs"
  shows "((\<forall>c\<in>set cs. truthy (company_key c) \<longrightarrow> norm_key (company_key c) \<noteq> None)
            \<longrightarrow> (\<exists>r. search_companies L params config = Inr r))
       \<and> (\<forall>r. search_companies L params config = Inr r \<longrightarrow>
             distinct (map (\<lambda>c. norm_key (company_key c)) r)
           \<and> subseq r cs
           \<and> (\<forall>c\<in>set r. find (\<lambda>d. norm_key (company_key d) = norm_key (company_key c)) cs
                           = Some c)
           \<and> (\<forall>c\<in>set cs. truthy (company_key c) \<longrightarrow>
                 norm_key (company_key c) \<in> set (map (\<lambda>c. norm_key (company_key c)) r)))"
proof (intro conjI impI allI)
  assume "\<forall>c\<in>set cs. truthy (company_key c) \<longrightarrow> norm_key (company_key c) \<noteq> None"
  from dedup_loop_total [OF this, of "[]"] obtain u where "dedup_loop cs [] = Inr u" by blast
  with assms show "\<exists>r. search_companies L params config = Inr r"
    by (simp add: search_companies_def)
next
  fix r assume r: "search_companies L params config = Inr r"
  from search_companies_Inr [OF assms r] obtain u where
    u: "dedup_loop cs [] = Inr u" "r = map snd u" by blast
  from dedup_result(1) [OF u(1)] u(2)
  show "distinct (map (\<lambda>c. norm_key (company_key c)) r)" by simp
next
  fix r assume r: "search_companies L params config = Inr r"
  from search_companies_Inr [OF assms r] obtain u where
    u: "dedup_loop cs [] = Inr u" "r = map snd u" by blast
  from dedup_result(2) [OF u(1)] u(2) show "subseq r cs" by simp
next
  fix r assume r: "search_companies L params config = Inr r"
  from search_companies_Inr [OF assms r] obtain u where
    u: "dedup_loop cs [] = Inr u" "r = map snd u" by blast
  from dedup_result(3) [OF u(1)] u(2)
  show "\<forall>c\<in>set r. find (\<lambda>d. norm_key (company_key d) = norm_key (company_key c)) cs = Some c"
    by simp
next
  fix r assume r: "search_companies L params config = Inr r"
  from search_companies_Inr [OF assms r] obtain u where
    u: "dedup_loop cs [] = Inr u" "r = map snd u" by blast
  have keys: "\<forall>p\<in>set u. norm_key (company_key (snd p)) = Some (fst p)"
    using dedup_loop_inv [OF u(1)] by (auto simp: kept_ok_def)
  show "\<forall>c\<in>set cs. truthy (company_key c) \<longrightarrow>
           norm_key (company_key c) \<in> set (map (\<lambda>c. norm_key (company_key c)) r)"
  proof (intro ballI impI)
    fix c assume "c \<in> set cs" "truthy (company_key c)"
    from dedup_loop_covers [OF u(1) this] obtain k where
      k: "norm_key (company_key c) = Some k" "k \<in> set (map fst u)" by blast
    then obtain p where "p \<in> set u" "fst p = k" by auto
    with keys have "norm_key (company_key (snd p)) = Some k" by simp
    with \<open>p \<in> set u\<close> k(1) u(2)
    show "norm_key (company_key c) \<in> set (map (\<lambda>c. norm_key (company_key c)) r)"
      by force
  qed
qed

theorem dedup_first_occurrence_witness:
  "collect_companies (page_lib org_a) [(''categoryId'', PStr ''c''), (''pages'', PInt 2)] []
     = Inr [company_a, company_a]
   \<and> search_companies (page_lib org_a) [(''categoryId'', PStr ''c''), (''pages'', PInt 2)] []
     = Inr [company_a]
   \<and> distinct (map (\<lambda>c. norm_key (company_key c)) [company_a])
   \<and> subseq [company_a] [company_a, company_a]
   \<and> find (\<lambda>d. norm_key (company_key d) = norm_key (company_key company_a))
        [company_a, company_a] = Some company_a"
proof -
  have c: "collect_companies (page_lib org_a) [(''categoryId'', PStr ''c''), (''pages'', PInt 2)] []
     = Inr [company_a, company_a]"
    by code_simp
  have s: "search_companies (page_lib org_a) [(''categoryId'', PStr ''c''), (''pages'', PInt 2)] []
     = Inr [company_a]"
    by code_simp
  from dedup_first_occurrence [OF c, THEN conjunct2, rule_format, OF s] c s
  show ?thesis by simp
qed

text \<open>
  Claim C10. Every company that \<open>search_companies\<close> returns has a non-empty resolved
  key; a company with the empty string as ID and neither domain nor source URL is never
  in the result, although the extractor builds one from an object without \<open>@id\<close> and
  \<open>url\<close>, as the example after the theorem shows.
\<close>

theorem result_keys_nonempty:
  assumes "search_companies L params config = Inr r"
  shows "(\<forall>c\<in>set r. truthy (company_key c) \<and> company_key c \<noteq> PStr [])
       \<and> (\<forall>c. ID c = PStr [] \<and> domain c = None \<and> sourceUrl c = None \<longrightarrow> c \<notin> set r)"
proof -
  from assms obtain cs u where u: "dedup_loop cs [] = Inr u" "r = map snd u"
    by (auto simp: search_companies_def split: sum.splits)
  from dedup_result(3) [OF u(1)] u(2) have t: "\<forall>c\<in>set r. truthy (company_key c)" by simp
  have "\<And>c. ID c = PStr [] \<and> domain c = None \<and> sourceUrl c = None \<Longrightarrow> \<not> truthy (company_key c)"
    by (simp add: company_key_def str_or_def or_empty_def)
  with t show ?thesis by fastforce
qed

theorem result_keys_nonempty_witness:
  "collect_companies (page_lib org_anon) [(''categoryId'', PStr ''c'')] []
     = Inr [company_a\<lparr>ID := PStr [], sourceUrl := None\<rparr>]
   \<and> search_companies (page_lib org_anon) [(''categoryId'', PStr ''c'')] [] = Inr []
   \<and> company_a\<lparr>ID := PStr [], sourceUrl := None\<rparr> \<notin> set []"
proof -
  have c: "collect_companies (page_lib org_anon) [(''categoryId'', PStr ''c'')] []
     = Inr [company_a\<lparr>ID := PStr [], sourceUrl := None\<rparr>]"
    by (simp add: search_eval org_anon_def company_a_def Company_def)
  have s: "search_companies (page_lib org_anon) [(''categoryId'', PStr ''c'')] [] = Inr []"
    by (simp add: search_eval org_anon_def)
  from result_keys_nonempty [OF s] c s show ?thesis by simp
qed


subsection \<open>The mode of the search\<close>













section \<open>Properties of the structured-data extractor\<close>

lemma lower_all_strings: "lower_all (map PStr names) = Inr (map lower names)"
  by (induction names) simp_all

lemma company_no_match:
  assumes "no_match item"
  shows "company_from_ld_json L tick item base_url hint = Inr None"
  using assms
  by (auto simp: no_match_def company_from_ld_json_def split: pyval.splits sum.splits)

lemma items_loop_skip:
  assumes "no_match item"
  shows "items_loop L base_url hint (item # items) st = items_loop L base_url hint items st"
proof -
  obtain companies seen_ids tick where st: "st = (companies, seen_ids, tick)"
    by (cases st) auto
  show ?thesis
  proof (cases item)
    case (PDict x)
    with company_no_match [OF assms, of L tick base_url hint]
    have "company_from_ld_json L tick (PDict x) base_url hint = Inr None" by simp
    with PDict show ?thesis unfolding st by simp
  qed (simp_all add: st)
qed





text \<open>
  Claim C5. An object whose \<open>@type\<close> is a string, or a list of strings, none of which is
  "organization" or "localbusiness" in lower case, yields no company and no error, and
  the loop over the objects of a block goes on as if the object were not there.
\<close>

theorem non_business_skipped:
  assumes "dict_get d ''@type'' = PStr s \<and> names = [s]
           \<or> dict_get d ''@type'' = PList (map PStr names)"
    and "\<forall>t\<in>set names. lower t \<notin> {''organization'', ''localbusiness''}"
  shows "company_from_ld_json L tick (PDict d) base_url hint = Inr None
       \<and> items_loop L base_url hint (PDict d # items) st = items_loop L base_url hint items st"
proof -
  from assms(1) have "declared_types (dict_get d ''@type'') = Inr (map lower names)"
    by (auto simp: lower_all_strings)
  moreover from assms(2) have "\<not> is_business (map lower names)"
    by (auto simp: is_business_def list_ex_iff)
  ultimately have "no_match (PDict d)" by (simp add: no_match_def)
  with company_no_match items_loop_skip show ?thesis by blast
qed

theorem non_business_skipped_witness:
  "company_from_ld_json lib0 0 (PDict [(''@type'', PList [PStr ''Product'', PStr ''Thing''])])
     ''https://www.trustpilot.com'' None = Inr None
   \<and> items_loop lib0 ''https://www.trustpilot.com'' None
       [PDict [(''@type'', PList [PStr ''Product'', PStr ''Thing''])], org_a] ([], [], 0)
     = items_loop lib0 ''https://www.trustpilot.com'' None [org_a] ([], [], 0)"
proof -
  have 1: "dict_get [(''@type'', PList [PStr ''Product'', PStr ''Thing''])] ''@type''
             = PStr ''x'' \<and> [''Product'', ''Thing''] = [''x'']
           \<or> dict_get [(''@type'', PList [PStr ''Product'', PStr ''Thing''])] ''@type''
             = PList (map PStr [''Product'', ''Thing''])"
    by (simp add: dict_get_def)
  have 2: "\<forall>t\<in>set [''Product'', ''Thing'']. lower t \<notin> {''organization'', ''localbusiness''}"
    by (simp add: lower_def lower_char_def less_eq_char_def)
  from non_business_skipped [OF 1 2] show ?thesis by simp
qed




subsection \<open>The clock\<close>

lemma py_fmt_1f_clock: "py_fmt_1f (L\<lparr>utc_now := k\<rparr>) v = py_fmt_1f L v"
  by (simp add: py_fmt_1f_def cong: option.case_cong)

lemma summary_text_clock: "summary_text (L\<lparr>utc_now := k\<rparr>) c = summary_text L c"
  by (simp add: summary_text_def py_fmt_1f_clock cong: sum.case_cong if_cong)

lemma categories_of_clock: "categories_of (L\<lparr>utc_now := k\<rparr>) v = categories_of L v"
  by (cases v) simp_all

lemma safe_float_clock: "safe_float (L\<lparr>utc_now := k\<rparr>) v = safe_float L v"
  by (cases v) simp_all

lemma safe_int_clock: "safe_int (L\<lparr>utc_now := k\<rparr>) v = safe_int L v"
  by (cases v) simp_all

lemma extract_domain_clock: "extract_domain (L\<lparr>utc_now := k\<rparr>) u = extract_domain L u"
  by (cases u) (simp_all add: extract_domain_def)

lemma resolve_url_clock: "resolve_url (L\<lparr>utc_now := k\<rparr>) v b = resolve_url L v b"
  by (cases v) (simp_all add: resolve_url_def)

lemma company_record_clock:
  "company_record (L\<lparr>utc_now := k\<rparr>) d url agg h = company_record L d url agg h"
  by (simp add: company_record_def categories_of_clock safe_float_clock safe_int_clock
      extract_domain_clock cong: option.case_cong)

lemma build_ai_summary_unstamped:
  "map_sum id (filter (\<lambda>kv. fst kv \<noteq> ''updatedAt'')) (build_ai_summary (L\<lparr>utc_now := k\<rparr>) t' c)
     = map_sum id (filter (\<lambda>kv. fst kv \<noteq> ''updatedAt'')) (build_ai_summary L t c)"
  by (cases "summary_text L c") (simp_all add: build_ai_summary_def summary_text_clock)

lemma company_from_ld_json_unstamped:
  "map_sum id (map_option unstamp) (company_from_ld_json (L\<lparr>utc_now := k\<rparr>) t' dat b h)
     = map_sum id (map_option unstamp) (company_from_ld_json L t dat b h)"
proof (cases dat)
  case (PDict d)
  show ?thesis
  proof (cases "declared_types (dict_get d ''@type'')")
    case (Inl e)
    with PDict show ?thesis by (simp add: company_from_ld_json_def)
  next
    case types: (Inr types)
    show ?thesis
    proof (cases "is_business types")
      case False
      with PDict types show ?thesis by (simp add: company_from_ld_json_def)
    next
      case True
      show ?thesis
      proof (cases "resolve_url L (py_or (py_or (dict_get d ''url'') (dict_get d ''@id'')) PNone) b")
        case (Inl e)
        with PDict types True show ?thesis
          by (simp add: company_from_ld_json_def resolve_url_clock)
      next
        case url: (Inr url)
        show ?thesis
        proof (cases "as_dict (py_or (dict_get d ''aggregateRating'') (PDict []))")
          case (Inl e)
          with PDict types True url show ?thesis
            by (simp add: company_from_ld_json_def resolve_url_clock)
        next
          case agg: (Inr agg)
          show ?thesis
          proof (cases "summary_text L (company_record L d url agg h)")
            case (Inl e)
            with PDict types True url agg show ?thesis
              by (simp add: company_from_ld_json_def resolve_url_clock company_record_clock
                  build_ai_summary_def summary_text_clock)
          next
            case (Inr summ)
            with PDict types True url agg show ?thesis
              by (simp add: company_from_ld_json_def resolve_url_clock company_record_clock
                  build_ai_summary_def summary_text_clock unstamp_def)
          qed
        qed
      qed
    qed
  qed
qed (simp_all add: company_from_ld_json_def)

lemma company_from_ld_json_stamp:
  assumes "company_from_ld_json L t dat b h = Inr (Some c)"
  shows "dict_get (aiSummary c) ''updatedAt'' = PStr (utc_now L t)"
  using assms
  by (auto simp: company_from_ld_json_def build_ai_summary_def dict_get_def
      split: pyval.splits sum.splits if_splits)

lemma ID_unstamp: "ID (unstamp c) = ID c"
  by (simp add: unstamp_def)

lemma unstamped_cases:
  assumes "map_sum id (map_option unstamp) x' = map_sum id (map_option unstamp) x"
  shows "(\<exists>e. x' = Inl e \<and> x = Inl e) \<or> (x' = Inr None \<and> x = Inr None)
       \<or> (\<exists>c' c. x' = Inr (Some c') \<and> x = Inr (Some c) \<and> unstamp c' = unstamp c)"
proof (cases x)
  case (Inl e)
  with assms show ?thesis by (cases x') auto
next
  case (Inr o1)
  with assms obtain o2 where x': "x' = Inr o2" and o: "map_option unstamp o2 = map_option unstamp o1"
    by (cases x') auto
  from o Inr x' show ?thesis by (cases o1; cases o2) auto
qed

lemma items_loop_unstamped:
  "same_unstamped st' st \<Longrightarrow>
     rel_sum (=) same_unstamped (items_loop (L\<lparr>utc_now := k\<rparr>) b h items st')
       (items_loop L b h items st)"
proof (induction items arbitrary: st' st)
  case Nil
  then show ?case by simp
next
  case (Cons item items)
  obtain cs' seen' t' where st': "st' = (cs', seen', t')" by (cases st') auto
  obtain cs seen t where st: "st = (cs, seen, t)" by (cases st) auto
  from Cons.prems have su: "map unstamp cs' = map unstamp cs" "seen' = seen"
    by (simp_all add: same_unstamped_def st st')
  show ?case
  proof (cases "\<exists>d. item = PDict d")
    case False
    then have "items_loop (L\<lparr>utc_now := k\<rparr>) b h (item # items) st'
                 = items_loop (L\<lparr>utc_now := k\<rparr>) b h items st'"
      and "items_loop L b h (item # items) st = items_loop L b h items st"
      unfolding st st' by (cases item; simp)+
    with Cons.IH [OF Cons.prems] show ?thesis by simp
  next
    case True
    then obtain d where d: "item = PDict d" by blast
    from unstamped_cases [OF company_from_ld_json_unstamped
        [where L = L and k = k and t' = t' and dat = item and b = b and h = h and t = t]]
    consider (err) e where "company_from_ld_json (L\<lparr>utc_now := k\<rparr>) t' item b h = Inl e"
        "company_from_ld_json L t item b h = Inl e"
      | (none) "company_from_ld_json (L\<lparr>utc_now := k\<rparr>) t' item b h = Inr None"
        "company_from_ld_json L t item b h = Inr None"
      | (some) c' c where "company_from_ld_json (L\<lparr>utc_now := k\<rparr>) t' item b h = Inr (Some c')"
        "company_from_ld_json L t item b h = Inr (Some c)" "unstamp c' = unstamp c"
      by blast
    then show ?thesis
    proof cases
      case err
      then show ?thesis unfolding st st' d by simp
    next
      case none
      have "same_unstamped (cs', seen', t') (cs, seen, t)"
        using su by (simp add: same_unstamped_def)
      from Cons.IH [OF this] none show ?thesis unfolding st st' d by simp
    next
      case some
      from some(3) have id: "ID c' = ID c" using ID_unstamp by metis
      show ?thesis
      proof (cases "norm_key (ID c)")
        case None
        with some id show ?thesis unfolding st st' d by simp
      next
        case (Some key)
        show ?thesis
        proof (cases "key \<in> set seen")
          case True
          have "same_unstamped (cs', seen', Suc t') (cs, seen, Suc t)"
            using su by (simp add: same_unstamped_def)
          from Cons.IH [OF this] some id Some True su(2) show ?thesis
            unfolding st st' d by simp
        next
          case False
          have "same_unstamped (cs' @ [c'], seen' @ [key], Suc t') (cs @ [c], seen @ [key], Suc t)"
            using su some(3) by (simp add: same_unstamped_def)
          from Cons.IH [OF this] some id Some False su(2) show ?thesis
            unfolding st st' d by simp
        qed
      qed
    qed
  qed
qed

lemma blocks_loop_unstamped:
  "same_unstamped st' st \<Longrightarrow>
     rel_sum (=) same_unstamped (blocks_loop (L\<lparr>utc_now := k\<rparr>) b h raws st')
       (blocks_loop L b h raws st)"
proof (induction raws arbitrary: st' st)
  case Nil
  then show ?case by simp
next
  case (Cons raw raws)
  show ?case
  proof (cases "raw = [] \<or> json_loads L raw = None")
    case True
    with Cons.IH [OF Cons.prems] show ?thesis by auto
  next
    case False
    then obtain dat where dat: "json_loads L raw = Some dat" and ne: "raw \<noteq> []" by auto
    let ?items = "case dat of PList xs \<Rightarrow> xs | _ \<Rightarrow> [dat]"
    from items_loop_unstamped [OF Cons.prems, where L = L and k = k and b = b and h = h
        and items = ?items]
    have R: "rel_sum (=) same_unstamped (items_loop (L\<lparr>utc_now := k\<rparr>) b h ?items st')
               (items_loop L b h ?items st)" .
    show ?thesis
    proof (cases "items_loop L b h ?items st")
      case (Inl e)
      with R have "items_loop (L\<lparr>utc_now := k\<rparr>) b h ?items st' = Inl e"
        by (cases "items_loop (L\<lparr>utc_now := k\<rparr>) b h ?items st'") auto
      with Inl dat ne show ?thesis by simp
    next
      case (Inr s)
      with R obtain s' where s': "items_loop (L\<lparr>utc_now := k\<rparr>) b h ?items st' = Inr s'"
        and ss: "same_unstamped s' s"
        by (cases "items_loop (L\<lparr>utc_now := k\<rparr>) b h ?items st'") auto
      from Cons.IH [OF ss] s' Inr dat ne show ?thesis by simp
    qed
  qed
qed

lemma items_loop_stamped:
  "items_loop L b h items st = Inr st2 \<Longrightarrow> \<forall>c\<in>set (fst st). stamped_by L c \<Longrightarrow>
     \<forall>c\<in>set (fst st2). stamped_by L c"
proof (induction items arbitrary: st)
  case Nil
  then show ?case by simp
next
  case (Cons item items)
  obtain cs seen t where st: "st = (cs, seen, t)" by (cases st) auto
  show ?case
  proof (cases "company_from_ld_json L t item b h")
    case (Inl e)
    with Cons.prems(1) have "items_loop L b h items st = Inr st2"
      unfolding st by (cases item) simp_all
    from Cons.IH [OF this Cons.prems(2)] show ?thesis .
  next
    case (Inr oc)
    show ?thesis
    proof (cases oc)
      case None
      with Inr Cons.prems(1) have "items_loop L b h items st = Inr st2"
        unfolding st by (cases item) simp_all
      from Cons.IH [OF this Cons.prems(2)] show ?thesis .
    next
      case (Some c)
      with Inr have c: "company_from_ld_json L t item b h = Inr (Some c)" by simp
      from company_from_ld_json_stamp [OF c] have sc: "stamped_by L c"
        by (auto simp: stamped_by_def)
      from c Cons.prems(1) consider
          "items_loop L b h items (cs, seen, t) = Inr st2"
        | "items_loop L b h items (cs, seen, Suc t) = Inr st2"
        | key where "items_loop L b h items (cs @ [c], seen @ [key], Suc t) = Inr st2"
        unfolding st by (cases item) (auto split: option.splits if_splits)
      then show ?thesis
      proof cases
        case 1
        from Cons.IH [OF 1] Cons.prems(2) show ?thesis by (simp add: st)
      next
        case 2
        from Cons.IH [OF 2] Cons.prems(2) show ?thesis by (simp add: st)
      next
        case 3
        from Cons.IH [OF 3] Cons.prems(2) sc show ?thesis by (simp add: st)
      qed
    qed
  qed
qed

lemma blocks_loop_stamped:
  "blocks_loop L b h raws st = Inr st2 \<Longrightarrow> \<forall>c\<in>set (fst st). stamped_by L c \<Longrightarrow>
     \<forall>c\<in>set (fst st2). stamped_by L c"
proof (induction raws arbitrary: st)
  case Nil
  then show ?case by simp
next
  case (Cons raw raws)
  show ?case
  proof (cases "raw = [] \<or> json_loads L raw = None")
    case True
    with Cons.prems(1) have "blocks_loop L b h raws st = Inr st2"
      by (auto split: if_splits)
    from Cons.IH [OF this Cons.prems(2)] show ?thesis .
  next
    case False
    then obtain dat where dat: "json_loads L raw = Some dat" and ne: "raw \<noteq> []" by auto
    with Cons.prems(1) obtain st1 where
      1: "items_loop L b h (case dat of PList xs \<Rightarrow> xs | _ \<Rightarrow> [dat]) st = Inr st1"
      and 2: "blocks_loop L b h raws st1 = Inr st2"
      by (auto split: sum.splits)
    from Cons.IH [OF 2 items_loop_stamped [OF 1 Cons.prems(2)]] show ?thesis .
  qed
qed

text \<open>
  Claim C8, as stated: two runs on the same page give equal records. The summary record
  holds the reading of the clock, so two runs at different times give different records.
\<close>

theorem timestamp_counterexample:
  "parse_ld_json_blocks (clock_lib ''2024-01-01T00:00:00+00:00'' org_a) 0 ''<html>''
     ''https://www.trustpilot.com'' None
   \<noteq> parse_ld_json_blocks (clock_lib ''2024-01-02T00:00:00+00:00'' org_a) 0 ''<html>''
     ''https://www.trustpilot.com'' None"
  by (simp add: search_eval clock_lib_def org_a_def company_a_def Company_def)

text \<open>
  Claim C8, amended. Two runs of the extractor on the same page, base URL and category
  hint, with the same library and any two clocks, raise the same error or return lists
  of companies that are equal once the entry \<open>updatedAt\<close> of each summary record is
  left out: every other field, and the summary text, status and language, agree. The
  entry \<open>updatedAt\<close> of each company holds a reading of the clock of its run.
\<close>

theorem runs_agree_except_timestamp:
  "map_sum id (\<lambda>r. map unstamp (fst r)) (parse_ld_json_blocks (L\<lparr>utc_now := k\<rparr>) t' html b h)
     = map_sum id (\<lambda>r. map unstamp (fst r)) (parse_ld_json_blocks L t html b h)
   \<and> (\<forall>cs n. parse_ld_json_blocks L t html b h = Inr (cs, n) \<longrightarrow>
         (\<forall>c\<in>set cs. \<exists>i. dict_get (aiSummary c) ''updatedAt'' = PStr (utc_now L i)))"
proof (intro conjI allI impI)
  have su: "same_unstamped ([], [], t') ([], [], t)" by (simp add: same_unstamped_def)
  let ?raws = "ld_json_scripts L html"
  from blocks_loop_unstamped [OF su, where L = L and k = k and b = b and h = h and raws = ?raws]
  have R: "rel_sum (=) same_unstamped (blocks_loop (L\<lparr>utc_now := k\<rparr>) b h ?raws ([], [], t'))
             (blocks_loop L b h ?raws ([], [], t))" .
  show "map_sum id (\<lambda>r. map unstamp (fst r)) (parse_ld_json_blocks (L\<lparr>utc_now := k\<rparr>) t' html b h)
     = map_sum id (\<lambda>r. map unstamp (fst r)) (parse_ld_json_blocks L t html b h)"
  proof (cases "blocks_loop L b h ?raws ([], [], t)")
    case (Inl e)
    with R have "blocks_loop (L\<lparr>utc_now := k\<rparr>) b h ?raws ([], [], t') = Inl e"
      by (cases "blocks_loop (L\<lparr>utc_now := k\<rparr>) b h ?raws ([], [], t')") auto
    with Inl show ?thesis by (simp add: parse_ld_json_blocks_def)
  next
    case (Inr s)
    with R obtain s' where s': "blocks_loop (L\<lparr>utc_now := k\<rparr>) b h ?raws ([], [], t') = Inr s'"
      and ss: "same_unstamped s' s"
      by (cases "blocks_loop (L\<lparr>utc_now := k\<rparr>) b h ?raws ([], [], t')") auto
    from ss have "map unstamp (fst s') = map unstamp (fst s)" by (simp add: same_unstamped_def)
    with s' Inr show ?thesis
      by (cases s; cases s') (simp add: parse_ld_json_blocks_def)
  qed
next
  fix cs n
  assume "parse_ld_json_blocks L t html b h = Inr (cs, n)"
  then obtain seen where "blocks_loop L b h (ld_json_scripts L html) ([], [], t) = Inr (cs, seen, n)"
    by (auto simp: parse_ld_json_blocks_def split: sum.splits)
  from blocks_loop_stamped [OF this]
  show "\<forall>c\<in>set cs. \<exists>i. dict_get (aiSummary c) ''updatedAt'' = PStr (utc_now L i)"
    by (simp add: stamped_by_def)
qed

theorem runs_agree_except_timestamp_witness:
  "parse_ld_json_blocks (clock_lib ''2024-01-01T00:00:00+00:00'' org_a) 0 ''<html>''
     ''https://www.trustpilot.com'' None
     = Inr ([company_a\<lparr>categoriesID := [],
                aiSummary := [(''summary'', PStr ''This business is listed on Trustpilot.''),
                              (''status'', PStr ''success''), (''lang'', PStr ''en''),
                              (''updatedAt'', PStr ''2024-01-01T00:00:00+00:00'')]\<rparr>], 1)
   \<and> (\<exists>i. dict_get [(''summary'', PStr ''This business is listed on Trustpilot.''),
                     (''status'', PStr ''success''), (''lang'', PStr ''en''),
                     (''updatedAt'', PStr ''2024-01-01T00:00:00+00:00'')] ''updatedAt''
            = PStr (utc_now (clock_lib ''2024-01-01T00:00:00+00:00'' org_a) i))"
proof -
  have h: "parse_ld_json_blocks (clock_lib ''2024-01-01T00:00:00+00:00'' org_a) 0 ''<html>''
     ''https://www.trustpilot.com'' None
     = Inr ([company_a\<lparr>categoriesID := [],
                aiSummary := [(''summary'', PStr ''This business is listed on Trustpilot.''),
                              (''status'', PStr ''success''), (''lang'', PStr ''en''),
                              (''updatedAt'', PStr ''2024-01-01T00:00:00+00:00'')]\<rparr>], 1)"
    by (simp add: search_eval clock_lib_def org_a_def company_a_def Company_def)
  from runs_agree_except_timestamp [THEN conjunct2, rule_format, OF h] h
  show ?thesis by simp
qed


section \<open>Properties of the review extractor\<close>

lemma replace_Z_no_Z: "CHR ''Z'' \<notin> set pre \<Longrightarrow> replace_Z pre = pre"
  by (induction pre) (auto simp: replace_Z_def)

lemma replace_Z_append: "replace_Z (xs @ ys) = replace_Z xs @ replace_Z ys"
  by (simp add: replace_Z_def)

lemma replace_Z_trailing:
  "CHR ''Z'' \<notin> set pre \<Longrightarrow> replace_Z (pre @ ''Z'') = replace_trailing_Z (pre @ ''Z'')"
  by (simp add: replace_Z_append replace_Z_no_Z replace_trailing_Z_def) (simp add: replace_Z_def)

lemma r_date_review:
  "r_date (review_of_card L cd) =
     (case sel_time cd of
        None \<Rightarrow> [(''createdAt'', PNone)]
      | Some el \<Rightarrow> (if date_raw_of el = [] then [(''createdAt'', PNone)]
                    else parse_date_iso L (date_raw_of el)))"
  by (simp add: review_of_card_def Let_def date_raw_of_def split: option.splits)

text \<open>
  Claim C4, as stated: an unparseable date string is stored verbatim. A time element
  whose \<open>datetime\<close> attribute is the empty string gives the null date, not the empty
  string.
\<close>

theorem empty_date_counterexample:
  "r_date (review_of_card lib0
      (empty_card\<lparr>sel_time := Some \<lparr>datetime_attr = Some [], time_text = ''2 days ago''\<rparr>\<rparr>))
     = [(''createdAt'', PNone)]
   \<and> claimed_date lib0
      (empty_card\<lparr>sel_time := Some \<lparr>datetime_attr = Some [], time_text = ''2 days ago''\<rparr>\<rparr>)
     = [(''createdAt'', PStr [])]"
  by (simp add: r_date_review claimed_date_def date_raw_of_def empty_card_def lib0_def
      replace_trailing_Z_def)

text \<open>
  Claim C4, amended. The raw date string of a card is the \<open>datetime\<close> attribute of its
  time element, else the visible text of that element. Without a time element, or with
  an empty raw string, \<open>createdAt\<close> is null. A non-empty raw string is parsed after
  every letter "Z" in it is replaced by "+00:00", which for a string whose only "Z" is
  the last character reads that "Z" as the UTC offset; when the parse succeeds the
  re-serialised string is stored, otherwise the raw string verbatim. So the raw string
  "2024-01-01T00:00:00Z" gives "2024-01-01T00:00:00+00:00" when the library parses and
  prints that string as it is.
\<close>

theorem review_date_normalised:
  "(sel_time cd = None \<longrightarrow> r_date (review_of_card L cd) = [(''createdAt'', PNone)])
   \<and> (\<forall>el. sel_time cd = Some el \<longrightarrow>
         (date_raw_of el = [] \<longrightarrow> r_date (review_of_card L cd) = [(''createdAt'', PNone)])
       \<and> (date_raw_of el \<noteq> [] \<longrightarrow>
            (\<forall>s. iso_roundtrip L (replace_Z (date_raw_of el)) = Some s \<longrightarrow>
                  r_date (review_of_card L cd) = [(''createdAt'', PStr s)])
          \<and> (iso_roundtrip L (replace_Z (date_raw_of el)) = None \<longrightarrow>
                  r_date (review_of_card L cd) = [(''createdAt'', PStr (date_raw_of el))])))
   \<and> (\<forall>pre. CHR ''Z'' \<notin> set pre \<longrightarrow>
         replace_Z pre = pre \<and> replace_Z (pre @ ''Z'') = pre @ ''+00:00'')
   \<and> (\<forall>el. sel_time cd = Some el \<and> date_raw_of el = ''2024-01-01T00:00:00Z''
           \<and> iso_roundtrip L ''2024-01-01T00:00:00+00:00'' = Some ''2024-01-01T00:00:00+00:00''
         \<longrightarrow> r_date (review_of_card L cd) = [(''createdAt'', PStr ''2024-01-01T00:00:00+00:00'')])"
proof (intro conjI allI impI)
  show "sel_time cd = None \<Longrightarrow> r_date (review_of_card L cd) = [(''createdAt'', PNone)]"
    by (simp add: r_date_review)
next
  fix el assume "sel_time cd = Some el" "date_raw_of el = []"
  then show "r_date (review_of_card L cd) = [(''createdAt'', PNone)]"
    by (simp add: r_date_review)
next
  fix el s
  assume "sel_time cd = Some el" "date_raw_of el \<noteq> []"
    "iso_roundtrip L (replace_Z (date_raw_of el)) = Some s"
  then show "r_date (review_of_card L cd) = [(''createdAt'', PStr s)]"
    by (simp add: r_date_review parse_date_iso_def)
next
  fix el
  assume "sel_time cd = Some el" "date_raw_of el \<noteq> []"
    "iso_roundtrip L (replace_Z (date_raw_of el)) = None"
  then show "r_date (review_of_card L cd) = [(''createdAt'', PStr (date_raw_of el))]"
    by (simp add: r_date_review parse_date_iso_def)
next
  fix pre assume "CHR ''Z'' \<notin> set pre"
  then show "replace_Z pre = pre" by (rule replace_Z_no_Z)
next
  fix pre assume "CHR ''Z'' \<notin> set pre"
  then show "replace_Z (pre @ ''Z'') = pre @ ''+00:00''"
    by (simp add: replace_Z_trailing replace_trailing_Z_def)
next
  fix el
  assume a: "sel_time cd = Some el \<and> date_raw_of el = ''2024-01-01T00:00:00Z''
           \<and> iso_roundtrip L ''2024-01-01T00:00:00+00:00'' = Some ''2024-01-01T00:00:00+00:00''"
  have "replace_Z ''2024-01-01T00:00:00Z'' = ''2024-01-01T00:00:00+00:00''"
    by (simp add: replace_Z_def)
  with a show "r_date (review_of_card L cd) = [(''createdAt'', PStr ''2024-01-01T00:00:00+00:00'')]"
    by (simp add: r_date_review parse_date_iso_def)
qed

theorem review_date_normalised_witness:
  "sel_time (empty_card\<lparr>sel_time :=
       Some \<lparr>datetime_attr = Some ''2024-01-01T00:00:00Z'', time_text = []\<rparr>\<rparr>)
     = Some \<lparr>datetime_attr = Some ''2024-01-01T00:00:00Z'', time_text = []\<rparr>
   \<and> date_raw_of \<lparr>datetime_attr = Some ''2024-01-01T00:00:00Z'', time_text = []\<rparr>
     = ''2024-01-01T00:00:00Z''
   \<and> iso_roundtrip iso_lib ''2024-01-01T00:00:00+00:00'' = Some ''2024-01-01T00:00:00+00:00''
   \<and> r_date (review_of_card iso_lib (empty_card\<lparr>sel_time :=
       Some \<lparr>datetime_attr = Some ''2024-01-01T00:00:00Z'', time_text = []\<rparr>\<rparr>))
     = [(''createdAt'', PStr ''2024-01-01T00:00:00+00:00'')]
   \<and> r_date (review_of_card iso_lib empty_card) = [(''createdAt'', PNone)]"
proof -
  have a: "sel_time (empty_card\<lparr>sel_time :=
       Some \<lparr>datetime_attr = Some ''2024-01-01T00:00:00Z'', time_text = []\<rparr>\<rparr>)
     = Some \<lparr>datetime_attr = Some ''2024-01-01T00:00:00Z'', time_text = []\<rparr>
   \<and> date_raw_of \<lparr>datetime_attr = Some ''2024-01-01T00:00:00Z'', time_text = []\<rparr>
     = ''2024-01-01T00:00:00Z''
   \<and> iso_roundtrip iso_lib ''2024-01-01T00:00:00+00:00'' = Some ''2024-01-01T00:00:00+00:00''"
    by (simp add: date_raw_of_def iso_lib_def)
  have n: "sel_time empty_card = None" by (simp add: empty_card_def)
  from review_date_normalised [THEN conjunct2, THEN conjunct2, THEN conjunct2, rule_format, OF a]
    review_date_normalised [THEN conjunct1, rule_format, OF n] a
  show ?thesis by simp
qed



end
